theory Spec2Isabelle
  imports Complex_Main "HOL-Library.AList" "HOL-Library.Sublist"
begin

section \<open>JavaScript values used by the monitoring handler\<close>

text \<open>
  Strings are \<^typ>\<open>string\<close>; a field that may be \<open>undefined\<close> or \<open>null\<close> in an event
  payload is a \<^typ>\<open>string option\<close>. A property access on a missing value raises a
  \<open>TypeError\<close> in the source, so every function that dereferences such a field returns
  \<open>js_error + 'a\<close>. The model treats characters as ASCII: \<open>toLowerCase\<close> changes the
  letters \<open>A\<close> to \<open>Z\<close> only.
\<close>

datatype js_error = TypeError | Error string

datatype js_value = JUndefined | JNull | JNum int | JStr string

text \<open>JavaScript truthiness (\<open>!!v\<close>) of a value and of an optional string.\<close>

fun truthy :: "js_value \<Rightarrow> bool" where
  "truthy JUndefined = False"
| "truthy JNull = False"
| "truthy (JNum n) = (n \<noteq> 0)"
| "truthy (JStr s) = (s \<noteq> [])"

fun truthy_str :: "string option \<Rightarrow> bool" where
  "truthy_str None = False"
| "truthy_str (Some s) = (s \<noteq> [])"

text \<open>\<open>a || b\<close> on an optional string with a string default.\<close>

definition or_else :: "string option \<Rightarrow> string \<Rightarrow> string" where
  "or_else v d = (case v of None \<Rightarrow> d | Some s \<Rightarrow> if s = [] then d else s)"

definition lower_char :: "char \<Rightarrow> char" where
  "lower_char c =
     (case map_of (zip ''ABCDEFGHIJKLMNOPQRSTUVWXYZ'' ''abcdefghijklmnopqrstuvwxyz'') c of
        None \<Rightarrow> c
      | Some l \<Rightarrow> l)"

definition toLowerCase :: "string \<Rightarrow> string" where
  "toLowerCase s = map lower_char s"

text \<open>\<open>s.includes(sub)\<close>: \<open>sub\<close> occurs in \<open>s\<close> as a contiguous substring.\<close>

fun str_includes :: "string \<Rightarrow> string \<Rightarrow> bool" where
  "str_includes [] sub = (sub = [])"
| "str_includes (c # cs) sub = (prefix sub (c # cs) \<or> str_includes cs sub)"

text \<open>\<open>xs.some(p)\<close>.\<close>

definition some :: "'a list \<Rightarrow> ('a \<Rightarrow> bool) \<Rightarrow> bool" where
  "some xs p = list_ex p xs"

section \<open>Compliance classifier (\<open>ClientMonitoringHandler\<close>)\<close>

record activity =
  url :: "string option"
  domain :: "string option"
  title :: "string option"
  path :: "string option"
  isActive :: bool
  userAgent :: "string option"
  timestamp :: js_value

definition violationDomains :: "string list" where
  "violationDomains =
    [''facebook.com'', ''instagram.com'', ''twitter.com'', ''x.com'', ''tiktok.com'',
     ''snapchat.com'', ''linkedin.com'', ''pinterest.com'', ''reddit.com'', ''tumblr.com'',
     ''discord.com'', ''whatsapp.com'', ''telegram.org'',
     ''youtube.com'', ''netflix.com'', ''hulu.com'', ''disney.com'', ''disneyplus.com'',
     ''amazon.com/prime'', ''twitch.tv'', ''vimeo.com'', ''dailymotion.com'', ''tiktok.com'',
     ''steam.com'', ''steamcommunity.com'', ''epicgames.com'', ''battle.net'', ''blizzard.com'',
     ''roblox.com'', ''minecraft.net'', ''ea.com'', ''ubisoft.com'', ''rockstargames.com'',
     ''playstation.com'', ''xbox.com'', ''nintendo.com'', ''itch.io'', ''gog.com'',
     ''buzzfeed.com'', ''9gag.com'', ''imgur.com'', ''meme'', ''funny'',
     ''amazon.com'', ''ebay.com'', ''etsy.com'', ''alibaba.com'', ''aliexpress.com'',
     ''walmart.com'', ''target.com'', ''bestbuy.com'',
     ''tinder.com'', ''bumble.com'', ''match.com'', ''okcupid.com'', ''pof.com'',
     ''pornhub.com'', ''xvideos.com'', ''xhamster.com'', ''redtube.com'', ''youporn.com'']"

definition violationKeywords :: "string list" where
  "violationKeywords =
    [''game'', ''gaming'', ''play'', ''casino'', ''bet'', ''gambling'',
     ''social'', ''chat'', ''dating'', ''meme'', ''funny'', ''entertainment'',
     ''stream'', ''video'', ''movie'', ''tv'', ''series'', ''anime'',
     ''shop'', ''buy'', ''sale'', ''deal'', ''coupon'', ''fashion'',
     ''adult'', ''xxx'', ''porn'', ''sex'']"

definition violationUrlPatterns :: "string list" where
  "violationUrlPatterns =
    [''youtube.com/watch'', ''facebook.com/'', ''instagram.com/'', ''twitter.com/'',
     ''x.com/'', ''tiktok.com/'', ''reddit.com/r/'', ''twitch.tv/'', ''netflix.com/watch'',
     ''amazon.com/gp/video'', ''steam.com/app/'']"

text \<open>
  \<open>isExplicitViolation(activity)\<close>. \<open>activity.domain.toLowerCase()\<close> and
  \<open>activity.url.toLowerCase()\<close> raise when the field is missing; the title falls back to
  the empty string.
\<close>

definition isExplicitViolation :: "activity \<Rightarrow> js_error + bool" where
  "isExplicitViolation a =
     (case domain a of
        None \<Rightarrow> Inl TypeError
      | Some d0 \<Rightarrow>
         (case url a of
            None \<Rightarrow> Inl TypeError
          | Some u0 \<Rightarrow>
             (let d = toLowerCase d0;
                  u = toLowerCase u0;
                  t = toLowerCase (or_else (title a) [])
              in if some violationDomains (\<lambda>vDomain. str_includes d vDomain) then Inr True
                 else if some violationUrlPatterns (\<lambda>p. str_includes u p) then Inr True
                 else if some violationKeywords
                           (\<lambda>keyword. str_includes u keyword \<or> str_includes t keyword)
                 then Inr True
                 else Inr False)))"

definition workDomains :: "string list" where
  "workDomains =
    [''github.com'', ''gitlab.com'', ''bitbucket.org'', ''stackoverflow.com'',
     ''stackexchange.com'', ''developer.mozilla.org'', ''w3schools.com'', ''codepen.io'',
     ''jsfiddle.net'',
     ''slack.com'', ''teams.microsoft.com'', ''zoom.us'', ''meet.google.com'', ''webex.com'',
     ''gotomeeting.com'', ''skype.com'',
     ''docs.google.com'', ''sheets.google.com'', ''slides.google.com'', ''drive.google.com'',
     ''calendar.google.com'', ''gmail.com'',
     ''office.com'', ''outlook.com'', ''onedrive.com'', ''sharepoint.com'',
     ''aws.amazon.com'', ''console.aws.amazon.com'', ''azure.microsoft.com'',
     ''cloud.google.com'', ''heroku.com'', ''vercel.com'', ''netlify.com'',
     ''figma.com'', ''canva.com'', ''adobe.com'', ''sketch.com'',
     ''trello.com'', ''asana.com'', ''monday.com'', ''notion.so'', ''airtable.com'',
     ''jira.atlassian.com'',
     ''confluence.atlassian.com'', ''wiki.'', ''documentation'', ''docs.'', ''api.'',
     ''localhost'', ''127.0.0.1'', ''infiverse'', ''workflowmanager'', ''vercel.app'']"

definition workKeywords :: "string list" where
  "workKeywords =
    [''api'', ''documentation'', ''docs'', ''tutorial'', ''guide'',
     ''development'', ''programming'', ''code'', ''software'',
     ''project'', ''task'', ''meeting'', ''conference'', ''webinar'',
     ''dashboard'', ''admin'', ''management'', ''analytics'',
     ''business'', ''enterprise'', ''corporate'', ''professional'']"

definition selfUrlMarkers :: "string list" where
  "selfUrlMarkers = [''localhost'', ''127.0.0.1'', ''infiverse'', ''workflowmanager'', ''vercel.app'']"

definition googleWorkHosts :: "string list" where
  "googleWorkHosts =
    [''docs.google.com'', ''sheets.google.com'', ''slides.google.com'', ''drive.google.com'',
     ''calendar.google.com'', ''gmail.com'', ''meet.google.com'', ''cloud.google.com'',
     ''console.cloud.google.com'']"

text \<open>
  \<open>isWorkRelatedActivity(activity)\<close>. The self-reference test reads the raw
  \<open>activity.url\<close> (not lower-cased) and needs it truthy.
\<close>

definition isWorkRelatedActivity :: "activity \<Rightarrow> js_error + bool" where
  "isWorkRelatedActivity a =
     (case domain a of
        None \<Rightarrow> Inl TypeError
      | Some d0 \<Rightarrow>
         (case url a of
            None \<Rightarrow> Inl TypeError
          | Some u0 \<Rightarrow>
             (let d = toLowerCase d0;
                  u = toLowerCase u0;
                  t = toLowerCase (or_else (title a) [])
              in if u0 \<noteq> [] \<and> some selfUrlMarkers (\<lambda>m. str_includes u0 m) then Inr True
                 else if some workDomains (\<lambda>wDomain. str_includes d wDomain) then Inr True
                 else if some workKeywords
                           (\<lambda>keyword. str_includes u keyword \<or> str_includes t keyword)
                 then Inr True
                 else if str_includes d ''google.com'' \<and>
                         (some googleWorkHosts (\<lambda>h. str_includes u h) \<or>
                          str_includes u ''google.com/search'')
                 then Inr True
                 else Inr False)))"

record alert_config =
  alert_type :: string
  alert_title :: string
  description :: string
  severity :: string

text \<open>\<open>getAlertConfig(violationType, activity)\<close>: the category is looked up by domain
  family (and by three URL keywords), never by the violation type.\<close>

definition getAlertConfig :: "string \<Rightarrow> activity \<Rightarrow> js_error + alert_config" where
  "getAlertConfig violationType a =
     (case domain a of
        None \<Rightarrow> Inl TypeError
      | Some d0 \<Rightarrow>
         (case url a of
            None \<Rightarrow> Inl TypeError
          | Some u0 \<Rightarrow>
             (let d = toLowerCase d0; u = toLowerCase u0
              in if str_includes d ''facebook.com'' \<or> str_includes d ''instagram.com'' \<or>
                    str_includes d ''twitter.com'' \<or> str_includes d ''x.com'' \<or>
                    str_includes d ''tiktok.com'' \<or> str_includes d ''snapchat.com''
                 then Inr \<lparr>alert_type = ''social_media_access'',
                           alert_title = ''Social Media Access Detected'',
                           description = ''Employee accessed social media platform: '' @ d0,
                           severity = ''high''\<rparr>
                 else if str_includes d ''steam.com'' \<or> str_includes d ''epicgames.com'' \<or>
                    str_includes d ''battle.net'' \<or> str_includes d ''roblox.com'' \<or>
                    str_includes d ''minecraft.net'' \<or> str_includes u ''game''
                 then Inr \<lparr>alert_type = ''gaming_access'',
                           alert_title = ''Gaming Platform Access Detected'',
                           description = ''Employee accessed gaming platform: '' @ d0,
                           severity = ''high''\<rparr>
                 else if str_includes d ''youtube.com'' \<or> str_includes d ''netflix.com'' \<or>
                    str_includes d ''twitch.tv'' \<or> str_includes d ''hulu.com''
                 then Inr \<lparr>alert_type = ''entertainment_access'',
                           alert_title = ''Entertainment Platform Access Detected'',
                           description = ''Employee accessed entertainment platform: '' @ d0,
                           severity = ''medium''\<rparr>
                 else if str_includes d ''amazon.com'' \<or> str_includes d ''ebay.com'' \<or>
                    str_includes d ''etsy.com'' \<or> str_includes d ''walmart.com''
                 then Inr \<lparr>alert_type = ''shopping_access'',
                           alert_title = ''Shopping Website Access Detected'',
                           description = ''Employee accessed shopping website: '' @ d0,
                           severity = ''medium''\<rparr>
                 else if str_includes d ''pornhub.com'' \<or> str_includes d ''xvideos.com'' \<or>
                    str_includes u ''adult'' \<or> str_includes u ''xxx''
                 then Inr \<lparr>alert_type = ''inappropriate_content'',
                           alert_title = ''Inappropriate Content Access Detected'',
                           description = ''Employee accessed inappropriate content: '' @ d0,
                           severity = ''critical''\<rparr>
                 else Inr \<lparr>alert_type = ''unauthorized_website'',
                           alert_title = ''Unauthorized Website Access'',
                           description = ''Employee accessed unauthorized website: '' @ u0,
                           severity = ''medium''\<rparr>)))"

section \<open>Handler state and collaborators\<close>

text \<open>
  A \<open>Date\<close> is its time value in milliseconds, or \<open>None\<close> for an invalid date.
  \<open>new Date(v)\<close> on a string defers to the runtime's parser, a parameter of the model.
\<close>

type_synonym js_date = "int option"

definition new_Date :: "(string \<Rightarrow> int option) \<Rightarrow> js_value \<Rightarrow> js_date" where
  "new_Date parse v =
     (case v of
        JUndefined \<Rightarrow> None
      | JNull \<Rightarrow> Some 0
      | JNum n \<Rightarrow> (if \<bar>n\<bar> \<le> 8640000000000000 then Some n else None)
      | JStr s \<Rightarrow> parse s)"

record capabilities =
  cap_screenCapture :: bool
  cap_activityTracking :: bool

record session =
  employeeId :: string
  sessionId :: "string option"
  socketId :: string
  startTime :: int
  session_capabilities :: "capabilities option"
  lastActivity :: "activity option"
  violationCount :: int
  lastViolationTime :: "int option"

datatype activity_metadata =
    BrowserActivity "string option" "string option" bool "string option"
  | VisibilityChange bool
  | FocusChange bool

record activity_record =
  ar_employee :: string
  ar_session_id :: "string option"
  ar_timestamp :: js_date
  ar_active_application :: "(string option \<times> string option \<times> string option) option"
  ar_metadata :: activity_metadata

record alert =
  al_employee :: string
  al_alert_type :: string
  al_title :: string
  al_description :: string
  al_severity :: string
  al_session_id :: "string option"
  al_website_url :: "string option"
  al_violation_type :: string
  al_activity_data :: "string option \<times> string option \<times> string option \<times> js_value"

record error_details =
  hasEmployeeId :: bool
  hasSessionId :: bool
  hasImageData :: bool
  hasMetadata :: bool
  metadataKeys :: "string list"

datatype event =
    MonitoringStartedAck "string option"
  | MonitoringStoppedAck "string option"
  | MonitoringRequest string string "string option" "string option" "string option" int
  | ScreenshotProcessed nat "string option" "string option"
  | ScreenshotError string string error_details

datatype target = ToSocket string | ToRoom string

datatype log_entry = LogWarn string | LogError string

record screenshot_metadata =
  sm_title :: "string option"
  sm_url :: "string option"
  sm_timestamp :: js_value
  sm_width :: "int option"
  sm_height :: "int option"
  sm_keys :: "string list"

record screenshot_data =
  sd_employeeId :: "string option"
  sd_sessionId :: "string option"
  sd_trigger :: "string option"
  sd_imageData :: "string option"
  sd_metadata :: "screenshot_metadata option"

record upload_metadata =
  um_application :: string
  um_url :: string
  um_violationType :: "string option"
  um_aiConfidence :: rat

datatype upload_function = UploadViolationScreenshot | UploadRegularScreenshot

record upload_result =
  cloudinary_url :: "string option"
  cloudinary_public_id :: "string option"
  cloudinary_version :: "int option"
  format :: "string option"
  file_size :: "int option"
  width :: "int option"
  height :: "int option"

record ai_result =
  confidence :: rat
  isViolation :: bool
  violationType :: string
  ai_description :: string

record ai_analysis =
  aa_confidence :: rat
  aa_activityType :: string
  aa_activityDescription :: string
  aa_alertReason :: string

record ocr_analysis =
  oa_text :: string
  oa_confidence :: rat
  oa_extractedAt :: int

record screen_capture =
  sc_employee :: string
  sc_session_id :: string
  sc_file_path :: "string option"
  sc_file_size :: int
  sc_file_hash :: "string option"
  sc_capture_trigger :: string
  sc_timestamp :: js_date
  sc_active_application :: "string \<times> string \<times> string"
  sc_screen_resolution :: "int \<times> int"
  sc_metadata :: screenshot_metadata
  sc_cloudinary :: upload_result
  sc_ai_analysis :: "ai_analysis option"
  sc_ocr_analysis :: "ocr_analysis option"

record config =
  activityFlushInterval :: int
  violationCooldown :: int
  maxActivityBuffer :: nat

definition default_config :: config where
  "default_config =
     \<lparr>activityFlushInterval = 30000, violationCooldown = 60000, maxActivityBuffer = 100\<rparr>"

text \<open>
  The handler object with its two maps (JavaScript \<open>Map\<close>s keep insertion order, so they
  are association lists), together with what its collaborators have received: the batches
  given to \<open>EmployeeActivity.insertMany\<close>, the saved alerts and captures, the upload
  calls, the events emitted on sockets and rooms, and the warnings and errors written to
  the console.
\<close>

record handler =
  activeSessions :: "(string \<times> session) list"
  activityBuffer :: "(string \<times> activity_record list) list"
  config :: config
  EmployeeActivity_docs :: "activity_record list list"
  MonitoringAlert_docs :: "alert list"
  ScreenCapture_docs :: "screen_capture list"
  uploads :: "(upload_function \<times> nat list \<times> string \<times> upload_metadata) list"
  emitted :: "(target \<times> event) list"
  console :: "log_entry list"

record whitelist_query =
  wq_url :: "string option"
  wq_domain :: string
  wq_url_regex :: string

text \<open>An awaited call to an optional analysis collaborator: it resolves, rejects, or
  stays pending for ever.\<close>

datatype 'a call = Resolves 'a | Rejects string | Pending

text \<open>
  What the environment answers during one handler invocation: the clock, the date parser,
  and the outcome of each collaborator call (\<open>None\<close> for a promise that resolves,
  \<open>Some e\<close> for one that rejects). \<open>findOne_result\<close> answers the whitelist query;
  its \<open>Inl\<close> also stands for a \<open>RegExp\<close> constructor that rejects the pattern.
  \<open>ocrAnalysisService\<close> and \<open>groqAIService\<close> are \<open>None\<close> when the collaborator is
  missing or does not implement the method.
\<close>

record env =
  now :: int
  Date_parse :: "string \<Rightarrow> int option"
  insertMany_result :: "js_error option"
  findOne_result :: "whitelist_query \<Rightarrow> js_error + unit option"
  io_present :: bool
  alert_save_result :: "js_error option"
  base64_decode :: "string \<Rightarrow> nat list"
  upload_outcome :: "js_error + upload_result"
  capture_save_result :: "js_error option"
  ocrAnalysisService :: "string call option"
  groqAIService :: "ai_result call option"
  analysis_save_result :: "js_error option"

definition log_error :: "string \<Rightarrow> handler \<Rightarrow> handler" where
  "log_error msg h = h\<lparr>console := console h @ [LogError msg]\<rparr>"

definition log_warn :: "string \<Rightarrow> handler \<Rightarrow> handler" where
  "log_warn msg h = h\<lparr>console := console h @ [LogWarn msg]\<rparr>"

definition emit :: "target \<Rightarrow> event \<Rightarrow> handler \<Rightarrow> handler" where
  "emit t ev h = h\<lparr>emitted := emitted h @ [(t, ev)]\<rparr>"

definition employee_room :: "string \<Rightarrow> target" where
  "employee_room e = ToRoom (''employee:'' @ e)"

section \<open>Activity buffer\<close>

text \<open>
  \<open>flushActivities(employeeId)\<close>: nothing to do for a missing or empty buffer; otherwise
  the buffer goes to \<open>insertMany\<close> as one batch and is replaced by \<open>[]\<close> only when the
  insert resolved. A rejected insert is caught and logged, and is taken to have stored
  nothing.
\<close>

definition flushActivities :: "env \<Rightarrow> handler \<Rightarrow> string \<Rightarrow> handler" where
  "flushActivities env h e =
     (case map_of (activityBuffer h) e of
        None \<Rightarrow> h
      | Some activities \<Rightarrow>
          if activities = [] then h
          else (case insertMany_result env of
                  None \<Rightarrow>
                    h\<lparr>EmployeeActivity_docs := EmployeeActivity_docs h @ [activities],
                      activityBuffer := AList.update e [] (activityBuffer h)\<rparr>
                | Some err \<Rightarrow> log_error ''Error flushing activities'' h))"

section \<open>Session registry\<close>

text \<open>
  The handlers take the socket's id, the employee id and the other fields of the event
  payload. Joining and leaving the employee's room belongs to the transport and is not
  part of the state; an event emitted to the room is recorded with the room as target.
\<close>

definition handleMonitoringStarted ::
  "env \<Rightarrow> handler \<Rightarrow> string \<Rightarrow> string \<Rightarrow> string option \<Rightarrow> capabilities option \<Rightarrow> handler" where
  "handleMonitoringStarted env h sock e sid caps =
     (let h1 = h\<lparr>activeSessions :=
                  AList.update e
                    \<lparr>employeeId = e, sessionId = sid, socketId = sock, startTime = now env,
                     session_capabilities = caps, lastActivity = None, violationCount = 0,
                     lastViolationTime = None\<rparr>
                    (activeSessions h)\<rparr>;
          h2 = (if map_of (activityBuffer h1) e \<noteq> None then h1
                else h1\<lparr>activityBuffer := AList.update e [] (activityBuffer h1)\<rparr>)
      in emit (ToSocket sock) (MonitoringStartedAck sid) h2)"

definition handleMonitoringStopped ::
  "env \<Rightarrow> handler \<Rightarrow> string \<Rightarrow> string \<Rightarrow> string option \<Rightarrow> handler" where
  "handleMonitoringStopped env h sock e sid =
     (let h1 = flushActivities env h e;
          h2 = h1\<lparr>activeSessions := AList.delete e (activeSessions h1)\<rparr>;
          h3 = h2\<lparr>activityBuffer := AList.delete e (activityBuffer h2)\<rparr>
      in emit (ToSocket sock) (MonitoringStoppedAck sid) h3)"

text \<open>
  \<open>handleClientDisconnect(socket)\<close>: the loop over \<open>activeSessions.entries()\<close> stops at
  the first session of the socket (\<open>break\<close>). The flush is started without \<open>await\<close>;
  the model gives the state once its promise has settled.
\<close>

fun disconnect_scan :: "env \<Rightarrow> string \<Rightarrow> (string \<times> session) list \<Rightarrow> handler \<Rightarrow> handler" where
  "disconnect_scan env sock [] h = h"
| "disconnect_scan env sock ((e, s) # rest) h =
     (if socketId s = sock
      then (let h1 = flushActivities env h e
            in h1\<lparr>activeSessions := AList.delete e (activeSessions h1)\<rparr>)
      else disconnect_scan env sock rest h)"

definition handleClientDisconnect :: "env \<Rightarrow> handler \<Rightarrow> string \<Rightarrow> handler" where
  "handleClientDisconnect env h sock = disconnect_scan env sock (activeSessions h) h"

text \<open>\<open>this.activeSessions.get(employeeId)?.sessionId || 'unknown'\<close>\<close>

definition session_id_or_unknown :: "handler \<Rightarrow> string \<Rightarrow> string" where
  "session_id_or_unknown h e =
     (case map_of (activeSessions h) e of
        None \<Rightarrow> ''unknown''
      | Some s \<Rightarrow> or_else (sessionId s) ''unknown'')"

text \<open>\<open>if (buffer.has(e)) buffer.get(e).push(record)\<close>\<close>

definition push_if_buffered :: "handler \<Rightarrow> string \<Rightarrow> activity_record \<Rightarrow> handler" where
  "push_if_buffered h e r =
     (case map_of (activityBuffer h) e of
        None \<Rightarrow> h
      | Some buf \<Rightarrow> h\<lparr>activityBuffer := AList.update e (buf @ [r]) (activityBuffer h)\<rparr>)"

definition handleVisibilityChange ::
  "env \<Rightarrow> handler \<Rightarrow> string \<Rightarrow> string \<Rightarrow> bool \<Rightarrow> js_value \<Rightarrow> handler" where
  "handleVisibilityChange env h sock e isVisible ts =
     push_if_buffered h e
       \<lparr>ar_employee = e, ar_session_id = Some (session_id_or_unknown h e),
        ar_timestamp = new_Date (Date_parse env) ts, ar_active_application = None,
        ar_metadata = VisibilityChange isVisible\<rparr>"

definition handleFocusChange ::
  "env \<Rightarrow> handler \<Rightarrow> string \<Rightarrow> string \<Rightarrow> bool \<Rightarrow> js_value \<Rightarrow> handler" where
  "handleFocusChange env h sock e hasFocus ts =
     push_if_buffered h e
       \<lparr>ar_employee = e, ar_session_id = Some (session_id_or_unknown h e),
        ar_timestamp = new_Date (Date_parse env) ts, ar_active_application = None,
        ar_metadata = FocusChange hasFocus\<rparr>"

section \<open>Violation response\<close>

text \<open>
  \<open>handlePotentialViolation(employeeId, activity, violationType)\<close>. The cooldown test is
  \<open>session.lastViolationTime && (now - session.lastViolationTime) < violationCooldown\<close>:
  a stored time of \<open>0\<close> is falsy, like \<open>null\<close>. Past the test the counter and the time
  are updated, the capture request goes to the employee's room when \<open>global.io\<close> exists,
  and the alert is built from \<open>getAlertConfig\<close> and saved; an exception on the way is
  caught and logged, and what was done before it stays done.
\<close>

definition in_cooldown :: "env \<Rightarrow> handler \<Rightarrow> session \<Rightarrow> bool" where
  "in_cooldown env h s =
     (case lastViolationTime s of
        None \<Rightarrow> False
      | Some t \<Rightarrow> t \<noteq> 0 \<and> now env - t < violationCooldown (config h))"

text \<open>\<open>session.violationCount++; session.lastViolationTime = now;\<close>\<close>

definition violation_recorded :: "env \<Rightarrow> session \<Rightarrow> session" where
  "violation_recorded env s =
     s\<lparr>violationCount := violationCount s + 1, lastViolationTime := Some (now env)\<rparr>"

definition make_alert :: "string \<Rightarrow> session \<Rightarrow> activity \<Rightarrow> string \<Rightarrow> alert_config \<Rightarrow> alert" where
  "make_alert e s a vt cfg =
     \<lparr>al_employee = e, al_alert_type = alert_type cfg, al_title = alert_title cfg,
      al_description = description cfg, al_severity = severity cfg,
      al_session_id = sessionId s, al_website_url = url a, al_violation_type = vt,
      al_activity_data = (url a, title a, domain a, timestamp a)\<rparr>"

definition handlePotentialViolation :: "env \<Rightarrow> handler \<Rightarrow> string \<Rightarrow> activity \<Rightarrow> string \<Rightarrow> handler" where
  "handlePotentialViolation env h e a vt =
     (case map_of (activeSessions h) e of
        None \<Rightarrow> h
      | Some s \<Rightarrow>
          if in_cooldown env h s then h
          else
            (let s' = violation_recorded env s;
                 h1 = h\<lparr>activeSessions := AList.update e s' (activeSessions h)\<rparr>;
                 h2 = (if io_present env
                       then emit (employee_room e)
                              (MonitoringRequest ''capture_violation'' vt (url a) (domain a)
                                 (title a) (now env)) h1
                       else h1)
             in case getAlertConfig vt a of
                  Inl err \<Rightarrow> log_error ''Error handling potential violation'' h2
                | Inr cfg \<Rightarrow>
                   (case alert_save_result env of
                      None \<Rightarrow>
                        h2\<lparr>MonitoringAlert_docs :=
                             MonitoringAlert_docs h2 @ [make_alert e s' a vt cfg]\<rparr>
                    | Some err \<Rightarrow> log_error ''Error handling potential violation'' h2)))"

text \<open>\<open>activity.domain.replace(/\./g, '\\.')\<close>: every dot gets a backslash in front.\<close>

definition escape_dots :: "string \<Rightarrow> string" where
  "escape_dots d = concat (map (\<lambda>c. if c = CHR ''.'' then [CHR 0x5C, CHR ''.''] else [c]) d)"

text \<open>
  \<open>checkActivityCompliance(employeeId, activity)\<close>: the whitelist query comes first and
  an entry ends the check; then the explicit-violation test and the work-related test are
  both evaluated, and a violation is handled when the first holds or the second fails.
  Every exception is caught and logged.
\<close>

definition checkActivityCompliance :: "env \<Rightarrow> handler \<Rightarrow> string \<Rightarrow> activity \<Rightarrow> handler" where
  "checkActivityCompliance env h e a =
     (case domain a of
        None \<Rightarrow> log_error ''Error checking activity compliance'' h
      | Some d \<Rightarrow>
         (case findOne_result env
                 \<lparr>wq_url = url a, wq_domain = d, wq_url_regex = escape_dots d\<rparr> of
            Inl err \<Rightarrow> log_error ''Error checking activity compliance'' h
          | Inr (Some whitelistEntry) \<Rightarrow> h
          | Inr None \<Rightarrow>
             (case isExplicitViolation a of
                Inl err \<Rightarrow> log_error ''Error checking activity compliance'' h
              | Inr explicit \<Rightarrow>
                 (case isWorkRelatedActivity a of
                    Inl err \<Rightarrow> log_error ''Error checking activity compliance'' h
                  | Inr workRelated \<Rightarrow>
                      if explicit \<or> \<not> workRelated
                      then handlePotentialViolation env h e a
                             (if explicit then ''explicit_violation'' else ''non_work_activity'')
                      else h))))"

text \<open>
  \<open>handleActivityUpdate(socket, data)\<close>: without a session the event is dropped with a
  warning. Otherwise the session's last activity is set, the record is pushed (a
  \<open>TypeError\<close> when the employee has no buffer), the buffer is flushed once its length
  has reached \<open>maxActivityBuffer\<close>, and the compliance check runs.
\<close>

definition browser_activity_record :: "env \<Rightarrow> string \<Rightarrow> string option \<Rightarrow> activity \<Rightarrow> activity_record" where
  "browser_activity_record env e sid a =
     \<lparr>ar_employee = e, ar_session_id = sid,
      ar_timestamp = new_Date (Date_parse env) (timestamp a),
      ar_active_application = Some (url a, title a, userAgent a),
      ar_metadata = BrowserActivity (domain a) (path a) (isActive a) (userAgent a)\<rparr>"

definition handleActivityUpdate ::
  "env \<Rightarrow> handler \<Rightarrow> string \<Rightarrow> string \<Rightarrow> string option \<Rightarrow> activity \<Rightarrow> handler" where
  "handleActivityUpdate env h sock e sid a =
     (case map_of (activeSessions h) e of
        None \<Rightarrow> log_warn ''No active session for employee'' h
      | Some s \<Rightarrow>
         (let h1 = h\<lparr>activeSessions :=
                      AList.update e (s\<lparr>lastActivity := Some a\<rparr>) (activeSessions h)\<rparr>;
              activityRecord = browser_activity_record env e sid a
          in case map_of (activityBuffer h1) e of
               None \<Rightarrow> log_error ''Error handling activity update'' h1
             | Some buf \<Rightarrow>
                (let h2 = h1\<lparr>activityBuffer :=
                              AList.update e (buf @ [activityRecord]) (activityBuffer h1)\<rparr>;
                     h3 = (if length (buf @ [activityRecord]) \<ge> maxActivityBuffer (config h2)
                           then flushActivities env h2 e else h2)
                 in checkActivityCompliance env h3 e a)))"

section \<open>Capture pipeline (\<open>handleScreenshotCaptured\<close>)\<close>

text \<open>\<open>imageData.replace(/^data:image\/\w+;base64,/, '')\<close>\<close>

definition word_char :: "char \<Rightarrow> bool" where
  "word_char c \<longleftrightarrow>
     c \<in> set ''ABCDEFGHIJKLMNOPQRSTUVWXYZabcdefghijklmnopqrstuvwxyz0123456789_''"

definition strip_data_url :: "string \<Rightarrow> string" where
  "strip_data_url s =
     (if prefix ''data:image/'' s
      then (let r = drop 11 s; rest = dropWhile word_char r
            in if takeWhile word_char r \<noteq> [] \<and> prefix '';base64,'' rest
               then drop 8 rest else s)
      else s)"

text \<open>\<open>a || d\<close> on an optional number: \<open>undefined\<close> and \<open>0\<close> are falsy.\<close>

definition num_or :: "int option \<Rightarrow> int \<Rightarrow> int" where
  "num_or v d = (case v of None \<Rightarrow> d | Some n \<Rightarrow> if n = 0 then d else n)"

definition message :: "js_error \<Rightarrow> string" where
  "message err = (case err of TypeError \<Rightarrow> ''TypeError'' | Error m \<Rightarrow> m)"

text \<open>
  The timestamp block: \<open>metadata.timestamp ? new Date(metadata.timestamp) : new Date()\<close>,
  replaced by \<open>new Date()\<close> when \<open>isNaN(validTimestamp.getTime())\<close>.
\<close>

definition validTimestamp :: "env \<Rightarrow> screenshot_metadata \<Rightarrow> js_date" where
  "validTimestamp env m =
     (let t = (if truthy (sm_timestamp m) then new_Date (Date_parse env) (sm_timestamp m)
               else Some (now env))
      in if t = None then Some (now env) else t)"

text \<open>The \<open>catch\<close> block of \<open>handleScreenshotCaptured\<close>.\<close>

definition screenshot_failed :: "js_error \<Rightarrow> handler \<Rightarrow> string \<Rightarrow> screenshot_data \<Rightarrow> handler" where
  "screenshot_failed err h sock d =
     emit (ToSocket sock)
       (ScreenshotError (message err) (or_else (sd_trigger d) ''unknown'')
          \<lparr>hasEmployeeId = truthy_str (sd_employeeId d),
           hasSessionId = truthy_str (sd_sessionId d),
           hasImageData = truthy_str (sd_imageData d),
           hasMetadata = (sd_metadata d \<noteq> None),
           metadataKeys = (case sd_metadata d of None \<Rightarrow> [] | Some m \<Rightarrow> sm_keys m)\<rparr>)
       (log_error ''Error handling screenshot'' h)"

definition default_aiAnalysis :: ai_result where
  "default_aiAnalysis =
     \<lparr>confidence = 1 / 2, isViolation = True, violationType = ''unauthorized_access'',
      ai_description = ''Policy violation detected''\<rparr>"

text \<open>
  The two guarded collaborator calls of \<open>analyzeViolationScreenshot\<close>. Each is awaited:
  \<open>None\<close> is returned when the awaited promise stays pending, and nothing after the
  \<open>await\<close> runs then.
\<close>

fun ocr_step :: "string call option \<Rightarrow> handler \<Rightarrow> (string \<times> handler) option" where
  "ocr_step None h = Some ([], h)"
| "ocr_step (Some (Resolves text)) h = Some (text, h)"
| "ocr_step (Some (Rejects m)) h = Some ([], log_warn ''OCR analysis failed'' h)"
| "ocr_step (Some Pending) h = None"

fun ai_step :: "ai_result call option \<Rightarrow> handler \<Rightarrow> (ai_result \<times> handler) option" where
  "ai_step None h = Some (default_aiAnalysis, h)"
| "ai_step (Some (Resolves r)) h = Some (r, h)"
| "ai_step (Some (Rejects m)) h = Some (default_aiAnalysis, log_warn ''AI analysis failed'' h)"
| "ai_step (Some Pending) h = None"

text \<open>An \<open>async\<close> function either returns, or is suspended for ever at an \<open>await\<close>; both
  carry the state reached.\<close>

datatype run = Returned handler | Suspended handler

text \<open>
  \<open>analyzeViolationScreenshot(employeeId, screenCapture, metadata)\<close>; \<open>cid\<close> is the
  position of the saved capture among the stored documents, which the second \<open>save()\<close>
  overwrites.
\<close>

definition analyzeViolationScreenshot :: "env \<Rightarrow> handler \<Rightarrow> nat \<Rightarrow> screen_capture \<Rightarrow> run" where
  "analyzeViolationScreenshot env h cid screenCapture =
     (case ocr_step (ocrAnalysisService env) h of
        None \<Rightarrow> Suspended h
      | Some (ocrText, h1) \<Rightarrow>
         (case ai_step (groqAIService env) h1 of
            None \<Rightarrow> Suspended h1
          | Some (aiAnalysis, h2) \<Rightarrow>
             (let analysed = screenCapture
                   \<lparr>sc_ai_analysis := Some
                      \<lparr>aa_confidence = confidence aiAnalysis,
                       aa_activityType = (if isViolation aiAnalysis then ''violation'' else ''normal''),
                       aa_activityDescription = ai_description aiAnalysis,
                       aa_alertReason = violationType aiAnalysis\<rparr>,
                    sc_ocr_analysis := Some
                      \<lparr>oa_text = ocrText, oa_confidence = 4 / 5, oa_extractedAt = now env\<rparr>\<rparr>
              in case analysis_save_result env of
                   None \<Rightarrow>
                     Returned (h2\<lparr>ScreenCapture_docs := (ScreenCapture_docs h2)[cid := analysed]\<rparr>)
                 | Some err \<Rightarrow>
                     Returned (log_error ''Error analyzing violation screenshot'' h2))))"

definition screenshot_ack :: "string \<Rightarrow> nat \<Rightarrow> upload_result \<Rightarrow> screenshot_data \<Rightarrow> handler \<Rightarrow> handler" where
  "screenshot_ack sock cid r d h =
     emit (ToSocket sock) (ScreenshotProcessed cid (cloudinary_public_id r) (sd_trigger d)) h"

text \<open>The document built by \<open>new ScreenCapture({...})\<close>.\<close>

definition new_ScreenCapture ::
  "env \<Rightarrow> string \<Rightarrow> string \<Rightarrow> bool \<Rightarrow> nat list \<Rightarrow> screenshot_metadata \<Rightarrow> upload_result \<Rightarrow>
   screen_capture" where
  "new_ScreenCapture env employee session violation imageBuffer metadata uploadResult =
     \<lparr>sc_employee = employee, sc_session_id = session,
      sc_file_path = cloudinary_url uploadResult,
      sc_file_size = num_or (file_size uploadResult) (int (length imageBuffer)),
      sc_file_hash = cloudinary_public_id uploadResult,
      sc_capture_trigger = (if violation then ''unauthorized_access'' else ''manual''),
      sc_timestamp = validTimestamp env metadata,
      sc_active_application =
        (or_else (sm_url metadata) ''unknown'',
         or_else (sm_title metadata) ''Unknown Application'', ''Browser''),
      sc_screen_resolution =
        (num_or (width uploadResult) (num_or (sm_width metadata) 1920),
         num_or (height uploadResult) (num_or (sm_height metadata) 1080)),
      sc_metadata = metadata, sc_cloudinary = uploadResult,
      sc_ai_analysis = None, sc_ocr_analysis = None\<rparr>"

definition new_uploadMetadata :: "bool \<Rightarrow> screenshot_metadata \<Rightarrow> upload_metadata" where
  "new_uploadMetadata violation metadata =
     \<lparr>um_application = or_else (sm_title metadata) ''Unknown Application'',
      um_url = or_else (sm_url metadata) ''unknown'',
      um_violationType = (if violation then Some ''unauthorized_access'' else None),
      um_aiConfidence = 4 / 5\<rparr>"

text \<open>
  \<open>handleScreenshotCaptured(socket, data)\<close>. The result is the state once the handler
  has run as far as it ever gets. The \<open>_id\<close> of the new document is its position among
  the stored captures.
\<close>

definition handleScreenshotCaptured :: "env \<Rightarrow> handler \<Rightarrow> string \<Rightarrow> screenshot_data \<Rightarrow> handler" where
  "handleScreenshotCaptured env h sock d =
     (case (sd_employeeId d, sd_sessionId d, sd_imageData d, sd_metadata d) of
        (Some employee, Some session, Some imageData, Some metadata) \<Rightarrow>
          if employee = [] \<or> session = [] \<or> imageData = []
          then screenshot_failed (Error ''Missing required screenshot data'') h sock d
          else
            (let imageBuffer = base64_decode env (strip_data_url imageData);
                 violation = (sd_trigger d = Some ''violation'');
                 cid = length (ScreenCapture_docs h);
                 h1 = h\<lparr>uploads := uploads h @
                          [(if violation then UploadViolationScreenshot else UploadRegularScreenshot,
                            imageBuffer, employee, new_uploadMetadata violation metadata)]\<rparr>
             in case upload_outcome env of
                  Inl err \<Rightarrow> screenshot_failed err h1 sock d
                | Inr uploadResult \<Rightarrow>
                   (let screenCapture = new_ScreenCapture env employee session violation
                                          imageBuffer metadata uploadResult
                    in case capture_save_result env of
                         Some err \<Rightarrow> screenshot_failed err h1 sock d
                       | None \<Rightarrow>
                          (let h2 = h1\<lparr>ScreenCapture_docs := ScreenCapture_docs h1 @ [screenCapture]\<rparr>
                           in if violation
                              then (case analyzeViolationScreenshot env h2 cid screenCapture of
                                      Suspended h3 \<Rightarrow> h3
                                    | Returned h3 \<Rightarrow> screenshot_ack sock cid uploadResult d h3)
                              else screenshot_ack sock cid uploadResult d h2)))
      | _ \<Rightarrow> screenshot_failed (Error ''Missing required screenshot data'') h sock d)"

section \<open>Server-side screen capture service (\<open>ScreenCaptureService.captureScreen\<close>)\<close>

record captureConfig =
  cc_employeeId :: string
  cc_sessionId :: string
  cc_lastCaptureHash :: "string option"
  cc_captureCount :: nat

record capture_metadata =
  cm_application_name :: "string option"
  cm_is_flagged :: bool
  cm_flag_reason :: "string option"

record service_capture =
  svc_employee :: string
  svc_session_id :: string
  svc_timestamp :: int
  svc_file_path :: "string option"
  svc_file_size :: "int option"
  svc_file_hash :: string
  svc_compression :: "nat \<times> nat"
  svc_screen_resolution :: "int \<times> int"
  svc_is_delta :: bool
  svc_previous_capture :: "nat option"
  svc_capture_trigger :: string
  svc_is_flagged :: bool
  svc_flag_reason :: "string option"
  svc_cloudinary_public_id :: "string option"

datatype service_alert =
    LargeScreenshotFile string string
  | ScreenCaptureFailed string string string string

text \<open>The service's collaborators, as far as \<open>captureScreen\<close> reaches them: the upload
  calls, the saved captures, the created alerts and the local backup files.\<close>

record capture_service =
  maxFileSize :: int
  cs_uploads :: "(nat list \<times> string \<times> string) list"
  cs_ScreenCapture_docs :: "service_capture list"
  cs_alerts :: "service_alert list"
  cs_files :: "(string \<times> nat list) list"

text \<open>What the environment answers during one \<open>captureScreen\<close> call.\<close>

record capture_env =
  ce_now :: int
  isHeadless :: bool
  screenshot_result :: "js_error + nat list"
  placeholder_result :: "js_error + nat list"
  md5_hex :: "nat list \<Rightarrow> string"
  compress_result :: "js_error + nat list"
  ce_upload_outcome :: "js_error + upload_result"
  local_backup_enabled :: bool
  local_backup_result :: "js_error + string"
  screen_resolution :: "int \<times> int"
  previous_capture :: "js_error + nat option"
  ce_save_result :: "js_error option"
  createAlert_result :: "js_error option"

text \<open>The inner \<open>try\<close>: a real screenshot unless the environment is headless, and the
  placeholder when taking it fails.\<close>

definition take_screenshot :: "capture_env \<Rightarrow> js_error + nat list" where
  "take_screenshot env =
     (if isHeadless env then placeholder_result env
      else (case screenshot_result env of
              Inr buffer \<Rightarrow> Inr buffer
            | Inl err \<Rightarrow> placeholder_result env))"

type_synonym capture_outcome = "(js_error + service_capture option) \<times> capture_service \<times> captureConfig"

text \<open>
  The outer \<open>try\<close> of \<open>captureScreen\<close>, in three parts. First the end of it: the
  lookup of the previous capture, the \<open>save()\<close>, the update of \<open>captureConfig\<close> and the
  alert on an oversized file.
\<close>

definition save_capture ::
  "capture_env \<Rightarrow> capture_service \<Rightarrow> captureConfig \<Rightarrow> string \<Rightarrow> capture_metadata \<Rightarrow>
   nat list \<Rightarrow> string \<Rightarrow> nat list \<Rightarrow> upload_result \<Rightarrow> string option \<Rightarrow> capture_outcome" where
  "save_capture env svc cfg trigger metadata screenshotBuffer currentHash compressedBuffer
     cloudinaryResult filePath =
     (case previous_capture env of
        Inl err \<Rightarrow> (Inl err, svc, cfg)
      | Inr previousCapture \<Rightarrow>
         (let screenCapture =
               \<lparr>svc_employee = cc_employeeId cfg,
                svc_session_id = cc_sessionId cfg,
                svc_timestamp = ce_now env,
                svc_file_path =
                  (case filePath of
                     None \<Rightarrow> cloudinary_url cloudinaryResult
                   | Some p \<Rightarrow> if p = [] then cloudinary_url cloudinaryResult else Some p),
                svc_file_size = file_size cloudinaryResult,
                svc_file_hash = currentHash,
                svc_compression = (length screenshotBuffer, length compressedBuffer),
                svc_screen_resolution = screen_resolution env,
                svc_is_delta = (previousCapture \<noteq> None),
                svc_previous_capture = previousCapture,
                svc_capture_trigger = trigger,
                svc_is_flagged = (trigger = ''unauthorized_site'' \<or> cm_is_flagged metadata),
                svc_flag_reason = cm_flag_reason metadata,
                svc_cloudinary_public_id = cloudinary_public_id cloudinaryResult\<rparr>
          in case ce_save_result env of
               Some err \<Rightarrow> (Inl err, svc, cfg)
             | None \<Rightarrow>
                (let svc3 = svc\<lparr>cs_ScreenCapture_docs :=
                                  cs_ScreenCapture_docs svc @ [screenCapture]\<rparr>;
                     cfg' = cfg\<lparr>cc_lastCaptureHash := Some currentHash,
                                cc_captureCount := cc_captureCount cfg + 1\<rparr>
                 in if (case file_size cloudinaryResult of
                          None \<Rightarrow> False
                        | Some n \<Rightarrow> n > maxFileSize svc3)
                    then (case createAlert_result env of
                            Some err \<Rightarrow> (Inl err, svc3, cfg')
                          | None \<Rightarrow>
                             (Inr (Some screenCapture),
                              svc3\<lparr>cs_alerts := cs_alerts svc3 @
                                     [LargeScreenshotFile (cc_employeeId cfg) (cc_sessionId cfg)]\<rparr>,
                              cfg'))
                    else (Inr (Some screenCapture), svc3, cfg'))))"

text \<open>Before it: compression, the upload and the optional local backup.\<close>

definition upload_capture ::
  "capture_env \<Rightarrow> capture_service \<Rightarrow> captureConfig \<Rightarrow> string \<Rightarrow> capture_metadata \<Rightarrow>
   nat list \<Rightarrow> string \<Rightarrow> capture_outcome" where
  "upload_capture env svc cfg trigger metadata screenshotBuffer currentHash =
     (case compress_result env of
        Inl err \<Rightarrow> (Inl err, svc, cfg)
      | Inr compressedBuffer \<Rightarrow>
         (let svc1 = svc\<lparr>cs_uploads := cs_uploads svc @
                       [(compressedBuffer, cc_employeeId cfg,
                         or_else (cm_application_name metadata) ''unknown'')]\<rparr>
          in case ce_upload_outcome env of
               Inl err \<Rightarrow> (Inl err, svc1, cfg)
             | Inr cloudinaryResult \<Rightarrow>
                if local_backup_enabled env
                then (case local_backup_result env of
                        Inl err \<Rightarrow> (Inl err, svc1, cfg)
                      | Inr p \<Rightarrow>
                          save_capture env
                            (svc1\<lparr>cs_files := cs_files svc1 @ [(p, compressedBuffer)]\<rparr>)
                            cfg trigger metadata screenshotBuffer currentHash compressedBuffer
                            cloudinaryResult (Some p))
                else save_capture env svc1 cfg trigger metadata screenshotBuffer currentHash
                       compressedBuffer cloudinaryResult None))"

text \<open>And the start: the screenshot, its MD5 hash and the delta test, where
  \<open>Inr None\<close> is \<open>return null\<close>.\<close>

definition captureScreen_body ::
  "capture_env \<Rightarrow> capture_service \<Rightarrow> captureConfig \<Rightarrow> string \<Rightarrow> capture_metadata \<Rightarrow> capture_outcome" where
  "captureScreen_body env svc cfg trigger metadata =
     (case take_screenshot env of
        Inl err \<Rightarrow> (Inl err, svc, cfg)
      | Inr screenshotBuffer \<Rightarrow>
         (let currentHash = md5_hex env screenshotBuffer
          in if cc_lastCaptureHash cfg = Some currentHash \<and> trigger = ''scheduled''
             then (Inr None, svc, cfg)
             else upload_capture env svc cfg trigger metadata screenshotBuffer currentHash))"

text \<open>
  \<open>captureScreen(captureConfig, trigger, metadata)\<close>: the \<open>catch\<close> creates a
  "Screen Capture Failed" alert and rethrows; when creating the alert fails, that error
  is the one thrown.
\<close>

definition captureScreen ::
  "capture_env \<Rightarrow> capture_service \<Rightarrow> captureConfig \<Rightarrow> string \<Rightarrow> capture_metadata \<Rightarrow> capture_outcome" where
  "captureScreen env svc cfg trigger metadata =
     (case captureScreen_body env svc cfg trigger metadata of
        (Inr result, svc', cfg') \<Rightarrow> (Inr result, svc', cfg')
      | (Inl err, svc', cfg') \<Rightarrow>
         (case createAlert_result env of
            Some err' \<Rightarrow> (Inl err', svc', cfg')
          | None \<Rightarrow>
             (Inl err,
              svc'\<lparr>cs_alerts := cs_alerts svc' @
                     [ScreenCaptureFailed (cc_employeeId cfg) (cc_sessionId cfg)
                        (message err) trigger]\<rparr>,
              cfg')))"

section \<open>Concrete inputs\<close>

text \<open>An environment in which every collaborator answers and no optional analysis
  service is installed, a freshly constructed handler, and a handler after one
  \<open>client-monitoring-started\<close> event.\<close>

definition example_env :: env where
  "example_env =
     \<lparr>now = 1700000000000, Date_parse = (\<lambda>s. None), insertMany_result = None,
      findOne_result = (\<lambda>q. Inr None), io_present = True, alert_save_result = None,
      base64_decode = (\<lambda>s. [137, 80, 78, 71]),
      upload_outcome = Inr \<lparr>cloudinary_url = Some ''https://res.example/shot.png'',
                             cloudinary_public_id = Some ''shot'', cloudinary_version = Some 1,
                             format = Some ''png'', file_size = Some 4, width = Some 1280,
                             height = Some 720\<rparr>,
      capture_save_result = None, ocrAnalysisService = None, groqAIService = None,
      analysis_save_result = None\<rparr>"

definition new_handler :: handler where
  "new_handler =
     \<lparr>activeSessions = [], activityBuffer = [], config = default_config,
      EmployeeActivity_docs = [], MonitoringAlert_docs = [], ScreenCapture_docs = [],
      uploads = [], emitted = [], console = []\<rparr>"

definition started_handler :: handler where
  "started_handler =
     handleMonitoringStarted example_env new_handler ''sock1'' ''emp1'' (Some ''sess1'')
       (Some \<lparr>cap_screenCapture = True, cap_activityTracking = True\<rparr>)"

definition facebook_feed :: activity where
  "facebook_feed =
     \<lparr>url = Some ''https://www.facebook.com/feed'', domain = Some ''www.facebook.com'',
      title = Some ''Facebook'', path = Some ''/feed'', isActive = True, userAgent = None,
      timestamp = JStr ''2023-11-14T22:13:20.000Z''\<rparr>"

definition example_shop :: activity where
  "example_shop =
     \<lparr>url = Some ''https://example-shop.com/'', domain = Some ''example-shop.com'',
      title = Some ''Flash Sale'', path = Some ''/'', isActive = True, userAgent = None,
      timestamp = JStr ''2023-11-14T22:13:20.000Z''\<rparr>"

definition visible_record :: activity_record where
  "visible_record =
     \<lparr>ar_employee = ''emp1'', ar_session_id = Some ''sess1'', ar_timestamp = Some 1700000001000,
      ar_active_application = None, ar_metadata = VisibilityChange True\<rparr>"

definition blurred_record :: activity_record where
  "blurred_record =
     \<lparr>ar_employee = ''emp1'', ar_session_id = Some ''sess1'', ar_timestamp = Some 1700000002000,
      ar_active_application = None, ar_metadata = FocusChange False\<rparr>"

definition failing_insert_env :: env where
  "failing_insert_env = example_env\<lparr>insertMany_result := Some (Error ''insert failed'')\<rparr>"

definition example_metadata :: screenshot_metadata where
  "example_metadata =
     \<lparr>sm_title = Some ''Facebook'', sm_url = Some ''https://www.facebook.com/feed'',
      sm_timestamp = JStr ''not-a-date'', sm_width = Some 1280, sm_height = Some 720,
      sm_keys = [''url'', ''title'', ''width'', ''height'', ''fileSize'', ''timestamp'']\<rparr>"

definition violation_shot :: screenshot_data where
  "violation_shot =
     \<lparr>sd_employeeId = Some ''emp1'', sd_sessionId = Some ''sess1'',
      sd_trigger = Some ''violation'',
      sd_imageData = Some ''data:image/png;base64,iVBORw=='',
      sd_metadata = Some example_metadata\<rparr>"

definition manual_shot :: screenshot_data where
  "manual_shot = violation_shot\<lparr>sd_trigger := Some ''manual''\<rparr>"

definition future_shot :: screenshot_data where
  "future_shot =
     manual_shot\<lparr>sd_metadata := Some (example_metadata\<lparr>sm_timestamp := JNum 4102444800000\<rparr>)\<rparr>"

definition example_capture_env :: capture_env where
  "example_capture_env =
     \<lparr>ce_now = 1700000000000, isHeadless = False,
      screenshot_result = Inr [137, 80, 78, 71],
      placeholder_result = Inr [60, 115, 118, 103],
      md5_hex = (\<lambda>b. if b = [137, 80, 78, 71] then ''0f343b0931126a20f133d67c2b018a3b''
                      else ''d41d8cd98f00b204e9800998ecf8427e''),
      compress_result = Inr [255, 216, 255],
      ce_upload_outcome = Inr \<lparr>cloudinary_url = Some ''https://res.example/screen.jpg'',
                                cloudinary_public_id = Some ''screen'', cloudinary_version = Some 1,
                                format = Some ''jpg'', file_size = Some 3, width = Some 1920,
                                height = Some 1080\<rparr>,
      local_backup_enabled = False, local_backup_result = Inl (Error ''no disk''),
      screen_resolution = (1920, 1080), previous_capture = Inr None,
      ce_save_result = None, createAlert_result = None\<rparr>"

definition example_service :: capture_service where
  "example_service =
     \<lparr>maxFileSize = 5 * 1024 * 1024, cs_uploads = [], cs_ScreenCapture_docs = [],
      cs_alerts = [], cs_files = []\<rparr>"

definition unchanged_config :: captureConfig where
  "unchanged_config =
     \<lparr>cc_employeeId = ''emp1'', cc_sessionId = ''sess1'',
      cc_lastCaptureHash = Some ''0f343b0931126a20f133d67c2b018a3b'', cc_captureCount = 1\<rparr>"

definition no_metadata :: capture_metadata where
  "no_metadata = \<lparr>cm_application_name = None, cm_is_flagged = False, cm_flag_reason = None\<rparr>"

section \<open>Strings\<close>

lemma str_includes_Nil [simp]: "str_includes s []"
  by (cases s) simp_all

text \<open>\<open>str_includes\<close> is the substring relation.\<close>

lemma str_includes_iff: "str_includes s sub \<longleftrightarrow> (\<exists>ps ss. s = ps @ sub @ ss)"
proof (induction s)
  case Nil
  then show ?case by auto
next
  case (Cons c cs)
  show ?case
  proof
    assume "str_includes (c # cs) sub"
    then consider "prefix sub (c # cs)" | "str_includes cs sub" by auto
    then show "\<exists>ps ss. c # cs = ps @ sub @ ss"
    proof cases
      case 1
      then obtain ss where "c # cs = sub @ ss" by (auto simp: prefix_def)
      then have "c # cs = [] @ sub @ ss" by simp
      then show ?thesis by blast
    next
      case 2
      with Cons.IH obtain ps ss where "cs = ps @ sub @ ss" by blast
      then have "c # cs = (c # ps) @ sub @ ss" by simp
      then show ?thesis by blast
    qed
  next
    assume "\<exists>ps ss. c # cs = ps @ sub @ ss"
    then obtain ps ss where eq: "c # cs = ps @ sub @ ss" by blast
    show "str_includes (c # cs) sub"
    proof (cases ps)
      case Nil
      with eq have "prefix sub (c # cs)" by (simp add: prefix_def)
      then show ?thesis by simp
    next
      case (Cons p ps')
      with eq have "cs = ps' @ sub @ ss" by simp
      with Cons.IH have "str_includes cs sub" by blast
      then show ?thesis by simp
    qed
  qed
qed

section \<open>The whitelist comes first\<close>

lemma started_handler_eq:
  "started_handler =
     \<lparr>activeSessions =
        [(''emp1'', \<lparr>employeeId = ''emp1'', sessionId = Some ''sess1'', socketId = ''sock1'',
                     startTime = 1700000000000,
                     session_capabilities =
                       Some \<lparr>cap_screenCapture = True, cap_activityTracking = True\<rparr>,
                     lastActivity = None, violationCount = 0, lastViolationTime = None\<rparr>)],
      activityBuffer = [(''emp1'', [])], config = default_config,
      EmployeeActivity_docs = [], MonitoringAlert_docs = [], ScreenCapture_docs = [],
      uploads = [],
      emitted = [(ToSocket ''sock1'', MonitoringStartedAck (Some ''sess1''))],
      console = []\<rparr>"
  by (simp add: started_handler_def handleMonitoringStarted_def new_handler_def emit_def
      example_env_def)

text \<open>
  C1. When the whitelist query of \<open>checkActivityCompliance\<close> returns an entry, the check
  ends there: the handler state is returned unchanged, so no violation is counted, no
  capture request is emitted and no alert is saved, whatever the activity's domain, URL
  and title are. (The query is only issued for an activity that has a domain.)
\<close>

theorem whitelist_short_circuits:
  assumes "domain a = Some d"
    and "findOne_result env \<lparr>wq_url = url a, wq_domain = d, wq_url_regex = escape_dots d\<rparr>
           = Inr (Some entry)"
  shows "checkActivityCompliance env h e a = h"
  using assms by (simp add: checkActivityCompliance_def)

text \<open>A Facebook page is an explicit violation and, with no whitelist entry, produces an
  alert for the started session; with an entry it leaves the handler as it was.\<close>

theorem whitelist_short_circuits_witness:
  "isExplicitViolation facebook_feed = Inr True \<and>
   MonitoringAlert_docs (checkActivityCompliance example_env started_handler ''emp1'' facebook_feed)
     \<noteq> MonitoringAlert_docs started_handler \<and>
   checkActivityCompliance (example_env\<lparr>findOne_result := (\<lambda>q. Inr (Some ()))\<rparr>)
      started_handler ''emp1'' facebook_feed = started_handler"
proof -
  have 1: "domain facebook_feed = Some ''www.facebook.com''"
    by (simp add: facebook_feed_def)
  have 2: "findOne_result (example_env\<lparr>findOne_result := (\<lambda>q. Inr (Some ()))\<rparr>)
            \<lparr>wq_url = url facebook_feed, wq_domain = ''www.facebook.com'',
             wq_url_regex = escape_dots ''www.facebook.com''\<rparr> = Inr (Some ())"
    by simp
  have 3: "isExplicitViolation facebook_feed = Inr True"
    by code_simp
  have 4: "MonitoringAlert_docs
             (checkActivityCompliance example_env started_handler ''emp1'' facebook_feed)
           \<noteq> MonitoringAlert_docs started_handler"
    by code_simp
  show ?thesis
    using whitelist_short_circuits [OF 1 2] 3 4 by simp
qed

section \<open>A keyword match on an unlisted domain\<close>

text \<open>
  C2, as the code has it. For an activity whose domain contains no entry of
  \<open>violationDomains\<close>, whose URL contains none of the violation URL patterns and whose
  title contains \<open>sale\<close>: \<open>isExplicitViolation\<close> is true by the keyword test, and
  \<open>getAlertConfig\<close> never answers with the shopping category, which it gives to the
  Amazon, eBay, Etsy and Walmart domains only. When the URL contains none of \<open>game\<close>,
  \<open>adult\<close> and \<open>xxx\<close>, the alert is of type \<open>unauthorized_website\<close> with severity
  \<open>medium\<close>.
\<close>

theorem keyword_sale_alert:
  assumes d: "domain a = Some d" and u: "url a = Some u"
    and nd: "\<not> some violationDomains (\<lambda>v. str_includes (toLowerCase d) v)"
    and np: "\<not> some violationUrlPatterns (\<lambda>p. str_includes (toLowerCase u) p)"
    and sale: "str_includes (toLowerCase (or_else (title a) [])) ''sale''"
  shows "isExplicitViolation a = Inr True \<and>
         (\<exists>cfg. getAlertConfig ''explicit_violation'' a = Inr cfg \<and>
                alert_type cfg \<noteq> ''shopping_access'' \<and>
                (\<not> str_includes (toLowerCase u) ''game'' \<and>
                 \<not> str_includes (toLowerCase u) ''adult'' \<and>
                 \<not> str_includes (toLowerCase u) ''xxx'' \<longrightarrow>
                 alert_type cfg = ''unauthorized_website'' \<and> severity cfg = ''medium''))"
proof -
  have kw: "some violationKeywords
              (\<lambda>k. str_includes (toLowerCase u) k \<or>
                    str_includes (toLowerCase (or_else (title a) [])) k)"
    using sale unfolding some_def violationKeywords_def by simp
  have ev: "isExplicitViolation a = Inr True"
    using d u kw by (simp add: isExplicitViolation_def Let_def)
  have doms: "\<not> str_includes (toLowerCase d) ''facebook.com''"
    "\<not> str_includes (toLowerCase d) ''instagram.com''"
    "\<not> str_includes (toLowerCase d) ''twitter.com''"
    "\<not> str_includes (toLowerCase d) ''x.com''"
    "\<not> str_includes (toLowerCase d) ''tiktok.com''"
    "\<not> str_includes (toLowerCase d) ''snapchat.com''"
    "\<not> str_includes (toLowerCase d) ''steam.com''"
    "\<not> str_includes (toLowerCase d) ''epicgames.com''"
    "\<not> str_includes (toLowerCase d) ''battle.net''"
    "\<not> str_includes (toLowerCase d) ''roblox.com''"
    "\<not> str_includes (toLowerCase d) ''minecraft.net''"
    "\<not> str_includes (toLowerCase d) ''youtube.com''"
    "\<not> str_includes (toLowerCase d) ''netflix.com''"
    "\<not> str_includes (toLowerCase d) ''twitch.tv''"
    "\<not> str_includes (toLowerCase d) ''hulu.com''"
    "\<not> str_includes (toLowerCase d) ''amazon.com''"
    "\<not> str_includes (toLowerCase d) ''ebay.com''"
    "\<not> str_includes (toLowerCase d) ''etsy.com''"
    "\<not> str_includes (toLowerCase d) ''walmart.com''"
    "\<not> str_includes (toLowerCase d) ''pornhub.com''"
    "\<not> str_includes (toLowerCase d) ''xvideos.com''"
    using nd unfolding some_def violationDomains_def by simp_all
  show ?thesis
    using ev d u doms by (simp add: getAlertConfig_def Let_def)
qed

theorem keyword_sale_alert_witness:
  "isExplicitViolation example_shop = Inr True \<and>
   (\<exists>cfg. getAlertConfig ''explicit_violation'' example_shop = Inr cfg \<and>
          alert_type cfg = ''unauthorized_website'' \<and> severity cfg = ''medium'')"
proof -
  have d: "domain example_shop = Some ''example-shop.com''"
    and u: "url example_shop = Some ''https://example-shop.com/''"
    by (simp_all add: example_shop_def)
  have nd: "\<not> some violationDomains (\<lambda>v. str_includes (toLowerCase ''example-shop.com'') v)"
    by code_simp
  have np: "\<not> some violationUrlPatterns
                (\<lambda>p. str_includes (toLowerCase ''https://example-shop.com/'') p)"
    by code_simp
  have sale: "str_includes (toLowerCase (or_else (title example_shop) [])) ''sale''"
    by code_simp
  have rest: "\<not> str_includes (toLowerCase ''https://example-shop.com/'') ''game'' \<and>
              \<not> str_includes (toLowerCase ''https://example-shop.com/'') ''adult'' \<and>
              \<not> str_includes (toLowerCase ''https://example-shop.com/'') ''xxx''"
    by code_simp
  show ?thesis
    using keyword_sale_alert [OF d u nd np sale] rest by blast
qed

text \<open>The scenario of the specification: \<open>example-shop.com\<close> with the title
  "Flash Sale" is an explicit violation, and its alert is the default one, not a
  shopping alert.\<close>

theorem flash_sale_is_not_a_shopping_alert:
  "isExplicitViolation example_shop = Inr True \<and>
   getAlertConfig ''explicit_violation'' example_shop =
     Inr \<lparr>alert_type = ''unauthorized_website'', alert_title = ''Unauthorized Website Access'',
          description = ''Employee accessed unauthorized website: https://example-shop.com/'',
          severity = ''medium''\<rparr> \<and>
   \<not> (\<exists>cfg. getAlertConfig ''explicit_violation'' example_shop = Inr cfg \<and>
             alert_type cfg = ''shopping_access'')"
proof -
  have 1: "isExplicitViolation example_shop = Inr True"
    by code_simp
  have 2: "getAlertConfig ''explicit_violation'' example_shop =
     Inr \<lparr>alert_type = ''unauthorized_website'', alert_title = ''Unauthorized Website Access'',
          description = ''Employee accessed unauthorized website: https://example-shop.com/'',
          severity = ''medium''\<rparr>"
    by code_simp
  from 1 2 show ?thesis by simp
qed

section \<open>Cooldown\<close>

lemma getAlertConfig_total:
  "domain a = Some d \<Longrightarrow> url a = Some u \<Longrightarrow> \<exists>cfg. getAlertConfig vt a = Inr cfg"
  by (simp add: getAlertConfig_def Let_def)

lemma violation_in_cooldown:
  assumes "map_of (activeSessions h) e = Some s" and "in_cooldown env h s"
  shows "handlePotentialViolation env h e a vt = h"
  using assms by (simp add: handlePotentialViolation_def)

lemma violation_allowed:
  assumes s: "map_of (activeSessions h) e = Some s" and free: "\<not> in_cooldown env h s"
    and cfg: "getAlertConfig vt a = Inr cfg" and save: "alert_save_result env = None"
  shows "handlePotentialViolation env h e a vt =
           h\<lparr>activeSessions := AList.update e (violation_recorded env s) (activeSessions h),
             emitted := emitted h @
               (if io_present env
                then [(employee_room e,
                       MonitoringRequest ''capture_violation'' vt (url a) (domain a) (title a) (now env))]
                else []),
             MonitoringAlert_docs :=
               MonitoringAlert_docs h @ [make_alert e (violation_recorded env s) a vt cfg]\<rparr>"
  using assms
  by (simp add: handlePotentialViolation_def Let_def emit_def)

text \<open>
  C3. Let a subject have an active session that is not in cooldown, and let three
  violations be handled for it: the first at a clock reading \<open>now env1\<close> (other than the
  epoch itself, which the code's truthiness test would take for "no previous violation"),
  the second less than \<open>violationCooldown\<close> after the first, the third at least
  \<open>violationCooldown\<close> after the first; the activities of the first and third carry a
  domain and a URL, and their alerts are saved without error. Then the second call
  returns the state of the first unchanged (no session change, no capture request, no
  alert): after two violations exactly one alert has been added, the counter has grown by
  one and the last-violation time is that of the first. The third call adds a second
  alert, and the counter and time are updated again.
\<close>

theorem cooldown_one_alert_per_window:
  assumes s0: "map_of (activeSessions h0) e = Some s0"
    and free: "\<not> in_cooldown env1 h0 s0"
    and t1: "now env1 \<noteq> 0"
    and within: "now env2 - now env1 < violationCooldown (config h0)"
    and elapsed: "violationCooldown (config h0) \<le> now env3 - now env1"
    and a1: "domain a1 \<noteq> None" "url a1 \<noteq> None"
    and a3: "domain a3 \<noteq> None" "url a3 \<noteq> None"
    and saves: "alert_save_result env1 = None" "alert_save_result env3 = None"
  shows "let h1 = handlePotentialViolation env1 h0 e a1 vt1;
             h2 = handlePotentialViolation env2 h1 e a2 vt2;
             h3 = handlePotentialViolation env3 h2 e a3 vt3
         in h2 = h1 \<and>
            (\<exists>al1. MonitoringAlert_docs h2 = MonitoringAlert_docs h0 @ [al1] \<and>
                   al_employee al1 = e) \<and>
            map_of (activeSessions h2) e =
              Some (s0\<lparr>violationCount := violationCount s0 + 1,
                       lastViolationTime := Some (now env1)\<rparr>) \<and>
            emitted h2 = emitted h0 @
              (if io_present env1
               then [(employee_room e,
                      MonitoringRequest ''capture_violation'' vt1 (url a1) (domain a1) (title a1)
                        (now env1))]
               else []) \<and>
            (\<exists>al1 al3. MonitoringAlert_docs h3 = MonitoringAlert_docs h0 @ [al1, al3] \<and>
                   al_employee al1 = e \<and> al_employee al3 = e) \<and>
            map_of (activeSessions h3) e =
              Some (s0\<lparr>violationCount := violationCount s0 + 2,
                       lastViolationTime := Some (now env3)\<rparr>)"
proof -
  define s1 where "s1 = violation_recorded env1 s0"
  define h1 where "h1 = handlePotentialViolation env1 h0 e a1 vt1"
  define h3 where "h3 = handlePotentialViolation env3 h1 e a3 vt3"
  from a1 obtain cfg1 where cfg1: "getAlertConfig vt1 a1 = Inr cfg1"
    using getAlertConfig_total by fastforce
  from a3 obtain cfg3 where cfg3: "getAlertConfig vt3 a3 = Inr cfg3"
    using getAlertConfig_total by fastforce
  have h1: "h1 = h0\<lparr>activeSessions := AList.update e s1 (activeSessions h0),
             emitted := emitted h0 @
               (if io_present env1
                then [(employee_room e,
                       MonitoringRequest ''capture_violation'' vt1 (url a1) (domain a1) (title a1)
                         (now env1))]
                else []),
             MonitoringAlert_docs := MonitoringAlert_docs h0 @ [make_alert e s1 a1 vt1 cfg1]\<rparr>"
    unfolding h1_def s1_def by (rule violation_allowed [OF s0 free cfg1 saves(1)])
  have s1: "map_of (activeSessions h1) e = Some s1"
    by (simp add: h1 update_conv')
  have cfg_h1: "config h1 = config h0" by (simp add: h1)
  have cool2: "in_cooldown env2 h1 s1"
    using t1 within by (simp add: in_cooldown_def s1_def violation_recorded_def cfg_h1)
  have h2: "handlePotentialViolation env2 h1 e a2 vt2 = h1"
    by (rule violation_in_cooldown [OF s1 cool2])
  have free3: "\<not> in_cooldown env3 h1 s1"
    using elapsed by (simp add: in_cooldown_def s1_def violation_recorded_def cfg_h1)
  have h3: "h3 = h1\<lparr>activeSessions := AList.update e (violation_recorded env3 s1) (activeSessions h1),
             emitted := emitted h1 @
               (if io_present env3
                then [(employee_room e,
                       MonitoringRequest ''capture_violation'' vt3 (url a3) (domain a3) (title a3)
                         (now env3))]
                else []),
             MonitoringAlert_docs :=
               MonitoringAlert_docs h1 @ [make_alert e (violation_recorded env3 s1) a3 vt3 cfg3]\<rparr>"
    unfolding h3_def by (rule violation_allowed [OF s1 free3 cfg3 saves(2)])
  have A: "\<exists>al1. MonitoringAlert_docs h1 = MonitoringAlert_docs h0 @ [al1] \<and> al_employee al1 = e"
    by (simp add: h1 make_alert_def)
  have B: "map_of (activeSessions h1) e =
              Some (s0\<lparr>violationCount := violationCount s0 + 1,
                       lastViolationTime := Some (now env1)\<rparr>)"
    by (simp add: s1 s1_def violation_recorded_def)
  have C: "emitted h1 = emitted h0 @
              (if io_present env1
               then [(employee_room e,
                      MonitoringRequest ''capture_violation'' vt1 (url a1) (domain a1) (title a1)
                        (now env1))]
               else [])"
    by (simp add: h1)
  have D: "\<exists>al1 al3. MonitoringAlert_docs h3 = MonitoringAlert_docs h0 @ [al1, al3] \<and>
             al_employee al1 = e \<and> al_employee al3 = e"
    by (simp add: h3 h1 make_alert_def)
  have E: "map_of (activeSessions h3) e =
              Some (s0\<lparr>violationCount := violationCount s0 + 2,
                       lastViolationTime := Some (now env3)\<rparr>)"
    by (simp add: h3 update_conv' s1_def violation_recorded_def)
  show ?thesis
    unfolding Let_def h1_def [symmetric] h2 h3_def [symmetric]
    using A B C D E by blast
qed

text \<open>Three violations of the started session: at the start, 30 seconds later and 60
  seconds later, with the default cooldown of 60 seconds.\<close>

theorem cooldown_one_alert_per_window_witness:
  "let h1 = handlePotentialViolation example_env started_handler ''emp1'' facebook_feed
              ''explicit_violation'';
       h2 = handlePotentialViolation (example_env\<lparr>now := 1700000030000\<rparr>) h1 ''emp1''
              example_shop ''explicit_violation'';
       h3 = handlePotentialViolation (example_env\<lparr>now := 1700000060000\<rparr>) h2 ''emp1''
              facebook_feed ''explicit_violation''
   in h2 = h1 \<and> length (MonitoringAlert_docs h2) = 1 \<and> length (MonitoringAlert_docs h3) = 2 \<and>
      map_option violationCount (map_of (activeSessions h2) ''emp1'') = Some 1 \<and>
      map_option violationCount (map_of (activeSessions h3) ''emp1'') = Some 2 \<and>
      map_option lastViolationTime (map_of (activeSessions h3) ''emp1'')
        = Some (Some 1700000060000)"
proof -
  have s0: "map_of (activeSessions started_handler) ''emp1'' =
      Some \<lparr>employeeId = ''emp1'', sessionId = Some ''sess1'', socketId = ''sock1'',
            startTime = 1700000000000,
            session_capabilities = Some \<lparr>cap_screenCapture = True, cap_activityTracking = True\<rparr>,
            lastActivity = None, violationCount = 0, lastViolationTime = None\<rparr>"
    by (simp add: started_handler_eq)
  have free: "\<not> in_cooldown example_env started_handler
      \<lparr>employeeId = ''emp1'', sessionId = Some ''sess1'', socketId = ''sock1'',
       startTime = 1700000000000,
       session_capabilities = Some \<lparr>cap_screenCapture = True, cap_activityTracking = True\<rparr>,
       lastActivity = None, violationCount = 0, lastViolationTime = None\<rparr>"
    by (simp add: in_cooldown_def)
  have t1: "now example_env \<noteq> 0" by (simp add: example_env_def)
  have within: "now (example_env\<lparr>now := 1700000030000\<rparr>) - now example_env
                  < violationCooldown (config started_handler)"
    by (simp add: example_env_def started_handler_eq default_config_def)
  have elapsed: "violationCooldown (config started_handler)
                  \<le> now (example_env\<lparr>now := 1700000060000\<rparr>) - now example_env"
    by (simp add: example_env_def started_handler_eq default_config_def)
  have a: "domain facebook_feed \<noteq> None" "url facebook_feed \<noteq> None"
    by (simp_all add: facebook_feed_def)
  have saves: "alert_save_result example_env = None"
    "alert_save_result (example_env\<lparr>now := 1700000060000\<rparr>) = None"
    by (simp_all add: example_env_def)
  note inst = cooldown_one_alert_per_window [OF s0 free t1 within elapsed a a saves,
      of "''explicit_violation''" example_shop "''explicit_violation''" "''explicit_violation''"]
  show ?thesis
    using inst unfolding Let_def
    by (auto simp: started_handler_eq)
qed

section \<open>Flushing the activity buffer\<close>

lemma push_if_buffered_buffer:
  "map_of (activityBuffer h) e = Some b \<Longrightarrow>
   map_of (activityBuffer (push_if_buffered h e r)) e = Some (b @ [r])"
  by (simp add: push_if_buffered_def update_conv')

lemma push_if_buffered_others [simp]:
  "EmployeeActivity_docs (push_if_buffered h e r) = EmployeeActivity_docs h"
  "console (push_if_buffered h e r) = console h"
  "activeSessions (push_if_buffered h e r) = activeSessions h"
  "config (push_if_buffered h e r) = config h"
  by (simp_all add: push_if_buffered_def split: option.splits)

lemma fold_push_buffer:
  "map_of (activityBuffer h) e = Some b \<Longrightarrow>
   map_of (activityBuffer (fold (\<lambda>r h. push_if_buffered h e r) rs h)) e = Some (b @ rs)"
proof (induction rs arbitrary: h b)
  case Nil
  then show ?case by simp
next
  case (Cons r rs)
  from Cons.prems have "map_of (activityBuffer (push_if_buffered h e r)) e = Some (b @ [r])"
    by (rule push_if_buffered_buffer)
  from Cons.IH [OF this] show ?case by simp
qed

lemma fold_push_docs [simp]:
  "EmployeeActivity_docs (fold (\<lambda>r h. push_if_buffered h e r) rs h) = EmployeeActivity_docs h"
  by (induction rs arbitrary: h) simp_all

lemma flush_resolved:
  assumes "map_of (activityBuffer h) e = Some records" and "insertMany_result env = None"
  shows "EmployeeActivity_docs (flushActivities env h e) =
           EmployeeActivity_docs h @ (if records = [] then [] else [records])"
    and "map_of (activityBuffer (flushActivities env h e)) e = Some []"
    and "console (flushActivities env h e) = console h"
  using assms by (simp_all add: flushActivities_def update_conv')

lemma flush_rejected:
  assumes "map_of (activityBuffer h) e = Some records" and "insertMany_result env = Some err"
  shows "EmployeeActivity_docs (flushActivities env h e) = EmployeeActivity_docs h"
    and "activityBuffer (flushActivities env h e) = activityBuffer h"
    and "console (flushActivities env h e) =
           console h @ (if records = [] then [] else [LogError ''Error flushing activities''])"
  using assms by (simp_all add: flushActivities_def log_error_def)

text \<open>
  C4. Let \<open>N\<close> records be enqueued, one after the other, into a subject's empty buffer.
  The buffer then holds them in enqueue order. A flush whose \<open>insertMany\<close> resolves hands
  exactly these records to storage as one batch (no batch when \<open>N = 0\<close>) and leaves the
  buffer empty. A flush whose \<open>insertMany\<close> rejects stores nothing, leaves the buffer map
  as it was and writes the error to the console; the function still returns normally
  (the model's \<open>flushActivities\<close> has no error result, as the source catches everything),
  and a later successful flush stores the same single batch: nothing lost, nothing twice.
\<close>

theorem flush_batch_in_order_or_retained:
  assumes empty: "map_of (activityBuffer h0) e = Some []"
    and enq: "h = fold (\<lambda>r h. push_if_buffered h e r) records h0"
  shows "map_of (activityBuffer h) e = Some records \<and>
         (insertMany_result env = None \<longrightarrow>
            EmployeeActivity_docs (flushActivities env h e) =
              EmployeeActivity_docs h0 @ (if records = [] then [] else [records]) \<and>
            map_of (activityBuffer (flushActivities env h e)) e = Some []) \<and>
         (insertMany_result env \<noteq> None \<longrightarrow>
            activityBuffer (flushActivities env h e) = activityBuffer h \<and>
            EmployeeActivity_docs (flushActivities env h e) = EmployeeActivity_docs h0 \<and>
            console (flushActivities env h e) =
              console h @ (if records = [] then [] else [LogError ''Error flushing activities'']) \<and>
            (insertMany_result env' = None \<longrightarrow>
               EmployeeActivity_docs (flushActivities env' (flushActivities env h e) e) =
                 EmployeeActivity_docs h0 @ (if records = [] then [] else [records]) \<and>
               map_of (activityBuffer (flushActivities env' (flushActivities env h e) e)) e =
                 Some []))"
proof -
  have buf: "map_of (activityBuffer h) e = Some records"
    using fold_push_buffer [OF empty, of records] enq by simp
  have docs: "EmployeeActivity_docs h = EmployeeActivity_docs h0"
    using enq by simp
  have ok: "insertMany_result env = None \<longrightarrow>
            EmployeeActivity_docs (flushActivities env h e) =
              EmployeeActivity_docs h0 @ (if records = [] then [] else [records]) \<and>
            map_of (activityBuffer (flushActivities env h e)) e = Some []"
    using flush_resolved(1,2) [OF buf] docs by simp
  have fail: "insertMany_result env \<noteq> None \<longrightarrow>
            activityBuffer (flushActivities env h e) = activityBuffer h \<and>
            EmployeeActivity_docs (flushActivities env h e) = EmployeeActivity_docs h0 \<and>
            console (flushActivities env h e) =
              console h @ (if records = [] then [] else [LogError ''Error flushing activities'']) \<and>
            (insertMany_result env' = None \<longrightarrow>
               EmployeeActivity_docs (flushActivities env' (flushActivities env h e) e) =
                 EmployeeActivity_docs h0 @ (if records = [] then [] else [records]) \<and>
               map_of (activityBuffer (flushActivities env' (flushActivities env h e) e)) e =
                 Some [])"
  proof
    assume "insertMany_result env \<noteq> None"
    then obtain err where err: "insertMany_result env = Some err" by auto
    note rej = flush_rejected [OF buf err]
    have buf': "map_of (activityBuffer (flushActivities env h e)) e = Some records"
      using rej(2) buf by simp
    have retry: "insertMany_result env' = None \<longrightarrow>
               EmployeeActivity_docs (flushActivities env' (flushActivities env h e) e) =
                 EmployeeActivity_docs h0 @ (if records = [] then [] else [records]) \<and>
               map_of (activityBuffer (flushActivities env' (flushActivities env h e) e)) e =
                 Some []"
      using flush_resolved(1,2) [OF buf', of env'] rej(1) docs by simp
    show "activityBuffer (flushActivities env h e) = activityBuffer h \<and>
            EmployeeActivity_docs (flushActivities env h e) = EmployeeActivity_docs h0 \<and>
            console (flushActivities env h e) =
              console h @ (if records = [] then [] else [LogError ''Error flushing activities'']) \<and>
            (insertMany_result env' = None \<longrightarrow>
               EmployeeActivity_docs (flushActivities env' (flushActivities env h e) e) =
                 EmployeeActivity_docs h0 @ (if records = [] then [] else [records]) \<and>
               map_of (activityBuffer (flushActivities env' (flushActivities env h e) e)) e =
                 Some [])"
      using rej docs retry by simp
  qed
  show ?thesis using buf ok fail by blast
qed

theorem flush_batch_in_order_or_retained_witness:
  "let h = fold (\<lambda>r h. push_if_buffered h ''emp1'' r) [visible_record, blurred_record]
             started_handler;
       failed = flushActivities failing_insert_env h ''emp1'';
       retried = flushActivities example_env failed ''emp1''
   in map_of (activityBuffer h) ''emp1'' = Some [visible_record, blurred_record] \<and>
      activityBuffer failed = activityBuffer h \<and>
      EmployeeActivity_docs failed = [] \<and>
      console failed = [LogError ''Error flushing activities''] \<and>
      EmployeeActivity_docs retried = [[visible_record, blurred_record]] \<and>
      map_of (activityBuffer retried) ''emp1'' = Some [] \<and>
      EmployeeActivity_docs (flushActivities example_env h ''emp1'')
        = [[visible_record, blurred_record]]"
proof -
  have empty: "map_of (activityBuffer started_handler) ''emp1'' = Some []"
    by (simp add: started_handler_eq)
  have fail: "insertMany_result failing_insert_env \<noteq> None"
    and ok: "insertMany_result example_env = None"
    by (simp_all add: failing_insert_env_def example_env_def)
  have c: "console (fold (\<lambda>r h. push_if_buffered h ''emp1'' r) [visible_record, blurred_record]
             started_handler) = []"
    by (simp add: started_handler_eq)
  have d: "EmployeeActivity_docs started_handler = []"
    by (simp add: started_handler_eq)
  note a = flush_batch_in_order_or_retained [OF empty refl, of "[visible_record, blurred_record]"
      failing_insert_env example_env]
  note b = flush_batch_in_order_or_retained [OF empty refl, of "[visible_record, blurred_record]"
      example_env example_env]
  show ?thesis
    unfolding Let_def using a b fail ok c d by simp
qed

section \<open>The size-triggered flush\<close>

lemma handlePotentialViolation_keeps_buffer [simp]:
  "activityBuffer (handlePotentialViolation env h e a vt) = activityBuffer h"
  "EmployeeActivity_docs (handlePotentialViolation env h e a vt) = EmployeeActivity_docs h"
  "config (handlePotentialViolation env h e a vt) = config h"
  by (simp_all add: handlePotentialViolation_def Let_def emit_def log_error_def
      split: option.splits sum.splits)

lemma checkActivityCompliance_keeps_buffer [simp]:
  "activityBuffer (checkActivityCompliance env h e a) = activityBuffer h"
  "EmployeeActivity_docs (checkActivityCompliance env h e a) = EmployeeActivity_docs h"
  "config (checkActivityCompliance env h e a) = config h"
  by (simp_all add: checkActivityCompliance_def log_error_def split: option.splits sum.splits)

lemma flush_other_subjects:
  "e' \<noteq> e \<Longrightarrow>
   map_of (activityBuffer (flushActivities env h e)) e' = map_of (activityBuffer h) e'"
  by (simp add: flushActivities_def update_conv' log_error_def split: option.splits)

lemma activity_update_effect:
  assumes sess: "map_of (activeSessions h) e = Some s"
    and buf: "map_of (activityBuffer h) e = Some b"
  shows "let h' = handleActivityUpdate env h sock e sid a;
             pushed = b @ [browser_activity_record env e sid a]
         in (if maxActivityBuffer (config h) \<le> length pushed \<and> insertMany_result env = None
             then map_of (activityBuffer h') e = Some [] \<and>
                  EmployeeActivity_docs h' = EmployeeActivity_docs h @ [pushed]
             else map_of (activityBuffer h') e = Some pushed \<and>
                  EmployeeActivity_docs h' = EmployeeActivity_docs h) \<and>
            (\<forall>e'. e' \<noteq> e \<longrightarrow> map_of (activityBuffer h') e' = map_of (activityBuffer h) e')"
  using assms
  by (auto simp: handleActivityUpdate_def Let_def flushActivities_def update_conv' log_error_def
      split: option.splits)

lemma flushActivities_config [simp]: "config (flushActivities env h e) = config h"
  by (simp add: flushActivities_def log_error_def split: option.splits)

lemma handleActivityUpdate_config [simp]:
  "config (handleActivityUpdate env h sock e sid a) = config h"
  by (simp add: handleActivityUpdate_def Let_def log_warn_def log_error_def split: option.splits)

text \<open>A visibility change (and likewise a focus change) only pushes.\<close>

lemma visibility_change_pushes:
  assumes "map_of (activityBuffer h) e = Some b"
  shows "\<exists>r. map_of (activityBuffer (handleVisibilityChange env h sock e v ts)) e = Some (b @ [r])"
  using assms by (simp add: handleVisibilityChange_def push_if_buffered_buffer)

lemma visibility_change_keeps [simp]:
  "EmployeeActivity_docs (handleVisibilityChange env h sock e v ts) = EmployeeActivity_docs h"
  "activeSessions (handleVisibilityChange env h sock e v ts) = activeSessions h"
  "config (handleVisibilityChange env h sock e v ts) = config h"
  by (simp_all add: handleVisibilityChange_def)

lemma focus_change_pushes:
  assumes "map_of (activityBuffer h) e = Some b"
  shows "\<exists>r. map_of (activityBuffer (handleFocusChange env h sock e v ts)) e = Some (b @ [r])"
  using assms by (simp add: handleFocusChange_def push_if_buffered_buffer)

lemma visibility_changes_keep [simp]:
  "EmployeeActivity_docs (((\<lambda>h. handleVisibilityChange env h sock e v ts) ^^ n) h)
     = EmployeeActivity_docs h"
  "activeSessions (((\<lambda>h. handleVisibilityChange env h sock e v ts) ^^ n) h) = activeSessions h"
  "config (((\<lambda>h. handleVisibilityChange env h sock e v ts) ^^ n) h) = config h"
  by (induction n) simp_all

lemma visibility_changes_grow:
  assumes "map_of (activityBuffer h) e = Some b"
  shows "\<exists>b'. map_of (activityBuffer (((\<lambda>h. handleVisibilityChange env h sock e v ts) ^^ n) h)) e
               = Some b' \<and> length b' = length b + n"
proof (induction n)
  case 0
  with assms show ?case by simp
next
  case (Suc n)
  then obtain b' where b':
    "map_of (activityBuffer (((\<lambda>h. handleVisibilityChange env h sock e v ts) ^^ n) h)) e = Some b'"
    "length b' = length b + n" by blast
  from visibility_change_pushes [OF b'(1), where env = env and sock = sock and v = v and ts = ts]
    b'(2)
  show ?case by auto
qed

text \<open>
  C5, as the code has it. An activity update for a subject with a session and a buffer
  appends its record; when the buffer length has then reached \<open>maxActivityBuffer\<close>, a
  flush of that subject's buffer is triggered at once: if \<open>insertMany\<close> resolves, the
  whole buffer is stored as one batch and the buffer is empty, and if it rejects, the
  records stay buffered. So an activity update whose flush succeeds never leaves more than
  \<open>maxActivityBuffer\<close> records behind. The buffers of all other subjects are untouched.
\<close>

theorem activity_update_flushes_at_limit:
  assumes sess: "map_of (activeSessions h) e = Some s"
    and buf: "map_of (activityBuffer h) e = Some b"
  shows "let h' = handleActivityUpdate env h sock e sid a;
             pushed = b @ [browser_activity_record env e sid a]
         in (maxActivityBuffer (config h) \<le> length pushed \<longrightarrow>
               (insertMany_result env = None \<longrightarrow>
                  map_of (activityBuffer h') e = Some [] \<and>
                  EmployeeActivity_docs h' = EmployeeActivity_docs h @ [pushed]) \<and>
               (insertMany_result env \<noteq> None \<longrightarrow>
                  map_of (activityBuffer h') e = Some pushed \<and>
                  EmployeeActivity_docs h' = EmployeeActivity_docs h)) \<and>
            (length pushed < maxActivityBuffer (config h) \<longrightarrow>
               map_of (activityBuffer h') e = Some pushed \<and>
               EmployeeActivity_docs h' = EmployeeActivity_docs h) \<and>
            (insertMany_result env = None \<longrightarrow>
               (\<exists>b'. map_of (activityBuffer h') e = Some b' \<and>
                     length b' \<le> maxActivityBuffer (config h))) \<and>
            (\<forall>e'. e' \<noteq> e \<longrightarrow> map_of (activityBuffer h') e' = map_of (activityBuffer h) e')"
  using activity_update_effect [OF sess buf, where env = env and sock = sock and sid = sid and a = a]
  unfolding Let_def by (auto split: if_splits)

text \<open>After 99 visibility changes the hundredth record, from an activity update, makes
  the handler store all hundred as one batch.\<close>

theorem activity_update_flushes_at_limit_witness:
  "let h99 = ((\<lambda>h. handleVisibilityChange example_env h ''sock1'' ''emp1'' True
                     (JNum 1700000001000)) ^^ 99) started_handler;
       h' = handleActivityUpdate example_env h99 ''sock1'' ''emp1'' (Some ''sess1'') facebook_feed
   in map_of (activityBuffer h') ''emp1'' = Some [] \<and>
      map length (EmployeeActivity_docs h') = [100]"
proof -
  define h99 where "h99 = ((\<lambda>h. handleVisibilityChange example_env h ''sock1'' ''emp1'' True
                     (JNum 1700000001000)) ^^ 99) started_handler"
  have "map_of (activityBuffer started_handler) ''emp1'' = Some []"
    by (simp add: started_handler_eq)
  from visibility_changes_grow [OF this, where env = example_env and sock = "''sock1''" and v = True
      and ts = "JNum 1700000001000" and n = 99]
  obtain b where buf: "map_of (activityBuffer h99) ''emp1'' = Some b" and len: "length b = 99"
    unfolding h99_def by auto
  have sess: "map_of (activeSessions h99) ''emp1'' =
      Some \<lparr>employeeId = ''emp1'', sessionId = Some ''sess1'', socketId = ''sock1'',
            startTime = 1700000000000,
            session_capabilities = Some \<lparr>cap_screenCapture = True, cap_activityTracking = True\<rparr>,
            lastActivity = None, violationCount = 0, lastViolationTime = None\<rparr>"
    unfolding h99_def by (simp add: started_handler_eq)
  have cfg: "maxActivityBuffer (config h99) = 100"
    unfolding h99_def by (simp add: started_handler_eq default_config_def)
  have docs: "EmployeeActivity_docs h99 = []"
    unfolding h99_def by (simp add: started_handler_eq)
  have ok: "insertMany_result example_env = None"
    by (simp add: example_env_def)
  from activity_update_flushes_at_limit [OF sess buf, where env = example_env and sock = "''sock1''"
      and sid = "Some ''sess1''" and a = facebook_feed] len cfg docs ok
  show ?thesis
    unfolding Let_def h99_def [symmetric] by simp
qed

text \<open>
  Two ways past the limit. A started session receives 101 visibility changes: its buffer
  holds 101 records, above the maximum of 100, and nothing was flushed. And a buffer of
  100 records receives an activity update while \<open>insertMany\<close> rejects: the flush is
  triggered, fails, and 101 records stay buffered.
\<close>

theorem enqueue_beyond_maxActivityBuffer:
  "(let h101 = ((\<lambda>h. handleVisibilityChange example_env h ''sock1'' ''emp1'' True
                      (JNum 1700000001000)) ^^ 101) started_handler
    in map_option length (map_of (activityBuffer h101) ''emp1'') = Some 101 \<and>
       maxActivityBuffer (config h101) = 100 \<and> EmployeeActivity_docs h101 = []) \<and>
   (let h100 = ((\<lambda>h. handleVisibilityChange example_env h ''sock1'' ''emp1'' True
                      (JNum 1700000001000)) ^^ 100) started_handler;
        h' = handleActivityUpdate failing_insert_env h100 ''sock1'' ''emp1'' (Some ''sess1'')
               facebook_feed
    in map_option length (map_of (activityBuffer h') ''emp1'') = Some 101 \<and>
       maxActivityBuffer (config h') = 100 \<and> EmployeeActivity_docs h' = [])"
proof -
  define step where "step = (\<lambda>h. handleVisibilityChange example_env h ''sock1'' ''emp1'' True
                      (JNum 1700000001000))"
  have start: "map_of (activityBuffer started_handler) ''emp1'' = Some []"
    by (simp add: started_handler_eq)
  from visibility_changes_grow [OF start, where env = example_env and sock = "''sock1''" and v = True
      and ts = "JNum 1700000001000" and n = 101]
  have one: "map_option length (map_of (activityBuffer ((step ^^ 101) started_handler)) ''emp1'')
               = Some 101"
    unfolding step_def by auto
  have one': "maxActivityBuffer (config ((step ^^ 101) started_handler)) = 100 \<and>
              EmployeeActivity_docs ((step ^^ 101) started_handler) = []"
    unfolding step_def by (simp add: started_handler_eq default_config_def)
  from visibility_changes_grow [OF start, where env = example_env and sock = "''sock1''" and v = True
      and ts = "JNum 1700000001000" and n = 100]
  obtain b where buf: "map_of (activityBuffer ((step ^^ 100) started_handler)) ''emp1'' = Some b"
    and len: "length b = 100"
    unfolding step_def by auto
  have sess: "map_of (activeSessions ((step ^^ 100) started_handler)) ''emp1'' =
      Some \<lparr>employeeId = ''emp1'', sessionId = Some ''sess1'', socketId = ''sock1'',
            startTime = 1700000000000,
            session_capabilities = Some \<lparr>cap_screenCapture = True, cap_activityTracking = True\<rparr>,
            lastActivity = None, violationCount = 0, lastViolationTime = None\<rparr>"
    unfolding step_def by (simp add: started_handler_eq)
  have cfg: "maxActivityBuffer (config ((step ^^ 100) started_handler)) = 100"
    and docs: "EmployeeActivity_docs ((step ^^ 100) started_handler) = []"
    unfolding step_def by (simp_all add: started_handler_eq default_config_def)
  have fail: "insertMany_result failing_insert_env \<noteq> None"
    by (simp add: failing_insert_env_def)
  from activity_update_effect [OF sess buf, where env = failing_insert_env and sock = "''sock1''"
      and sid = "Some ''sess1''" and a = facebook_feed] len cfg docs fail
  have two: "map_option length
        (map_of (activityBuffer (handleActivityUpdate failing_insert_env
           ((step ^^ 100) started_handler) ''sock1'' ''emp1'' (Some ''sess1'') facebook_feed))
           ''emp1'') = Some 101 \<and>
      maxActivityBuffer (config (handleActivityUpdate failing_insert_env
           ((step ^^ 100) started_handler) ''sock1'' ''emp1'' (Some ''sess1'') facebook_feed)) = 100 \<and>
      EmployeeActivity_docs (handleActivityUpdate failing_insert_env
           ((step ^^ 100) started_handler) ''sock1'' ''emp1'' (Some ''sess1'') facebook_feed) = []"
    unfolding Let_def by simp
  show ?thesis
    unfolding Let_def step_def [symmetric] using one one' two by blast
qed

section \<open>Disconnect and stop\<close>

lemma disconnect_scan_first:
  assumes "find (\<lambda>(e', s'). socketId s' = sock) al = Some (e, s)"
  shows "disconnect_scan env sock al h =
           (flushActivities env h e)
             \<lparr>activeSessions := AList.delete e (activeSessions (flushActivities env h e))\<rparr>"
  using assms by (induction al) (auto simp: Let_def split: if_splits)

lemma disconnect_scan_none:
  assumes "find (\<lambda>(e', s'). socketId s' = sock) al = None"
  shows "disconnect_scan env sock al h = h"
  using assms by (induction al) (auto split: if_splits)

lemma flushActivities_sessions [simp]:
  "activeSessions (flushActivities env h e) = activeSessions h"
  by (simp add: flushActivities_def log_error_def split: option.splits)

text \<open>
  C9, as the code has it. Let \<open>e\<close> be the first subject, in the order of the session map,
  whose session belongs to the closed socket. The disconnect handler flushes that
  subject's buffer and deletes its session, as the stop handler does: after it the
  session map, the stored activity batches and the console are what an explicit
  \<open>client-monitoring-stopped\<close> event for \<open>e\<close> would have left, and \<open>e\<close> has no session.
  (The stop handler also acknowledges on the socket; a closed socket gets nothing.)
\<close>

theorem disconnect_cleans_first_session_like_stop:
  assumes "find (\<lambda>(e', s'). socketId s' = sock) (activeSessions h) = Some (e, s)"
  shows "activeSessions (handleClientDisconnect env h sock)
           = activeSessions (handleMonitoringStopped env h sock' e sid) \<and>
         EmployeeActivity_docs (handleClientDisconnect env h sock)
           = EmployeeActivity_docs (handleMonitoringStopped env h sock' e sid) \<and>
         console (handleClientDisconnect env h sock)
           = console (handleMonitoringStopped env h sock' e sid) \<and>
         map_of (activeSessions (handleClientDisconnect env h sock)) e = None"
  using disconnect_scan_first [OF assms, of env h]
  by (simp add: handleClientDisconnect_def handleMonitoringStopped_def Let_def emit_def
      delete_conv')

theorem disconnect_cleans_first_session_like_stop_witness:
  "let h = push_if_buffered started_handler ''emp1'' visible_record;
       closed = handleClientDisconnect example_env h ''sock1'';
       stopped = handleMonitoringStopped example_env h ''sock1'' ''emp1'' (Some ''sess1'')
   in activeSessions closed = [] \<and> activeSessions stopped = [] \<and>
      EmployeeActivity_docs closed = [[visible_record]] \<and>
      EmployeeActivity_docs stopped = [[visible_record]] \<and>
      console closed = console stopped"
proof -
  define h where "h = push_if_buffered started_handler ''emp1'' visible_record"
  have h: "h = started_handler\<lparr>activityBuffer := [(''emp1'', [visible_record])]\<rparr>"
    by (simp add: h_def push_if_buffered_def started_handler_eq)
  have first: "find (\<lambda>(e', s'). socketId s' = ''sock1'') (activeSessions h) =
      Some (''emp1'',
        \<lparr>employeeId = ''emp1'', sessionId = Some ''sess1'', socketId = ''sock1'',
            startTime = 1700000000000,
            session_capabilities = Some \<lparr>cap_screenCapture = True, cap_activityTracking = True\<rparr>,
            lastActivity = None, violationCount = 0, lastViolationTime = None\<rparr>)"
    by (simp add: h started_handler_eq)
  have stopped: "activeSessions (handleMonitoringStopped example_env h ''sock1'' ''emp1''
                    (Some ''sess1'')) = [] \<and>
                 EmployeeActivity_docs (handleMonitoringStopped example_env h ''sock1'' ''emp1''
                    (Some ''sess1'')) = [[visible_record]]"
    by (simp add: h started_handler_eq handleMonitoringStopped_def flushActivities_def
        example_env_def emit_def Let_def)
  from disconnect_cleans_first_session_like_stop [OF first, where env = example_env
      and sock' = "''sock1''" and sid = "Some ''sess1''"] stopped
  show ?thesis
    unfolding Let_def h_def [symmetric] by simp
qed

text \<open>
  Where the two handlers differ. With one pending record, a disconnect leaves the
  subject's buffer entry in the buffer map (emptied by the flush), while a stop removes
  the entry. And when two subjects were started on one socket, a disconnect of that socket
  removes the session of the first only.
\<close>

theorem disconnect_is_not_stop:
  "(let h = push_if_buffered started_handler ''emp1'' visible_record
    in map_of (activityBuffer (handleClientDisconnect example_env h ''sock1'')) ''emp1'' = Some [] \<and>
       map_of (activityBuffer
                 (handleMonitoringStopped example_env h ''sock1'' ''emp1'' (Some ''sess1'')))
         ''emp1'' = None) \<and>
   (let h2 = handleMonitoringStarted example_env started_handler ''sock1'' ''emp2''
               (Some ''sess2'') None
    in map_option socketId (map_of (activeSessions h2) ''emp2'') = Some ''sock1'' \<and>
       map_option socketId
         (map_of (activeSessions (handleClientDisconnect example_env h2 ''sock1'')) ''emp2'')
         = Some ''sock1'')"
proof -
  have h: "push_if_buffered started_handler ''emp1'' visible_record
             = started_handler\<lparr>activityBuffer := [(''emp1'', [visible_record])]\<rparr>"
    by (simp add: push_if_buffered_def started_handler_eq)
  have 1: "map_of (activityBuffer (handleClientDisconnect example_env
              (started_handler\<lparr>activityBuffer := [(''emp1'', [visible_record])]\<rparr>) ''sock1''))
            ''emp1'' = Some []"
    by (simp add: started_handler_eq handleClientDisconnect_def flushActivities_def
        example_env_def Let_def)
  have 2: "map_of (activityBuffer (handleMonitoringStopped example_env
              (started_handler\<lparr>activityBuffer := [(''emp1'', [visible_record])]\<rparr>)
              ''sock1'' ''emp1'' (Some ''sess1''))) ''emp1'' = None"
    by (simp add: started_handler_eq handleMonitoringStopped_def flushActivities_def
        example_env_def emit_def Let_def)
  have 3: "handleMonitoringStarted example_env started_handler ''sock1'' ''emp2''
               (Some ''sess2'') None =
           started_handler
             \<lparr>activeSessions := activeSessions started_handler @
                 [(''emp2'', \<lparr>employeeId = ''emp2'', sessionId = Some ''sess2'',
                     socketId = ''sock1'', startTime = 1700000000000,
                     session_capabilities = None, lastActivity = None, violationCount = 0,
                     lastViolationTime = None\<rparr>)],
              activityBuffer := [(''emp1'', []), (''emp2'', [])],
              emitted := emitted started_handler @
                 [(ToSocket ''sock1'', MonitoringStartedAck (Some ''sess2''))]\<rparr>"
    by (simp add: started_handler_eq handleMonitoringStarted_def emit_def example_env_def)
  have 4: "map_option socketId
         (map_of (activeSessions (handleClientDisconnect example_env
            (handleMonitoringStarted example_env started_handler ''sock1'' ''emp2''
               (Some ''sess2'') None) ''sock1'')) ''emp2'') = Some ''sock1''"
    unfolding 3
    by (simp add: started_handler_eq handleClientDisconnect_def flushActivities_def Let_def
       )
  have 5: "map_option socketId
         (map_of (activeSessions (handleMonitoringStarted example_env started_handler ''sock1''
            ''emp2'' (Some ''sess2'') None)) ''emp2'') = Some ''sock1''"
    unfolding 3 by (simp add: started_handler_eq)
  show ?thesis
    unfolding Let_def h using 1 2 4 5 by simp
qed

section \<open>Ingest validation\<close>

text \<open>
  C6. When the subject id, the session id or the image payload is missing or empty, or
  the metadata is missing, \<open>handleScreenshotCaptured\<close> takes the error path at once:
  nothing is uploaded, no capture record is stored, and the only event is a
  \<open>screenshot-error\<close> with the message "Missing required screenshot data" whose details
  carry one flag per required field, each telling whether that field was present.
\<close>

theorem missing_field_rejected:
  assumes "\<not> truthy_str (sd_employeeId d) \<or> \<not> truthy_str (sd_sessionId d) \<or>
           \<not> truthy_str (sd_imageData d) \<or> sd_metadata d = None"
  shows "uploads (handleScreenshotCaptured env h sock d) = uploads h \<and>
         ScreenCapture_docs (handleScreenshotCaptured env h sock d) = ScreenCapture_docs h \<and>
         emitted (handleScreenshotCaptured env h sock d) = emitted h @
           [(ToSocket sock,
             ScreenshotError ''Missing required screenshot data''
               (or_else (sd_trigger d) ''unknown'')
               \<lparr>hasEmployeeId = truthy_str (sd_employeeId d),
                hasSessionId = truthy_str (sd_sessionId d),
                hasImageData = truthy_str (sd_imageData d),
                hasMetadata = (sd_metadata d \<noteq> None),
                metadataKeys = (case sd_metadata d of None \<Rightarrow> [] | Some m \<Rightarrow> sm_keys m)\<rparr>)]"
proof -
  have "handleScreenshotCaptured env h sock d =
          screenshot_failed (Error ''Missing required screenshot data'') h sock d"
    using assms
    by (cases "sd_employeeId d"; cases "sd_sessionId d"; cases "sd_imageData d";
        cases "sd_metadata d") (auto simp: handleScreenshotCaptured_def)
  then show ?thesis
    by (simp add: screenshot_failed_def emit_def log_error_def message_def)
qed

text \<open>An ingest call without \<open>imageData\<close>: the error response says
  \<open>hasImageData: false\<close> and the other three flags are true.\<close>

theorem missing_field_rejected_witness:
  "let h' = handleScreenshotCaptured example_env new_handler ''sock1''
              (violation_shot\<lparr>sd_imageData := None\<rparr>)
   in uploads h' = [] \<and> ScreenCapture_docs h' = [] \<and>
      emitted h' =
        [(ToSocket ''sock1'',
          ScreenshotError ''Missing required screenshot data'' ''violation''
            \<lparr>hasEmployeeId = True, hasSessionId = True, hasImageData = False,
             hasMetadata = True,
             metadataKeys = [''url'', ''title'', ''width'', ''height'', ''fileSize'',
                             ''timestamp'']\<rparr>)]"
proof -
  have hyp: "\<not> truthy_str (sd_employeeId (violation_shot\<lparr>sd_imageData := None\<rparr>)) \<or>
             \<not> truthy_str (sd_sessionId (violation_shot\<lparr>sd_imageData := None\<rparr>)) \<or>
             \<not> truthy_str (sd_imageData (violation_shot\<lparr>sd_imageData := None\<rparr>)) \<or>
             sd_metadata (violation_shot\<lparr>sd_imageData := None\<rparr>) = None"
    by simp
  from missing_field_rejected [OF hyp, where env = example_env and h = new_handler
      and sock = "''sock1''"]
  show ?thesis
    unfolding Let_def
    by (simp add: violation_shot_def example_metadata_def new_handler_def or_else_def)
qed

section \<open>Capture timestamps\<close>

lemma validTimestamp_valid: "validTimestamp env m \<noteq> None"
  by (simp add: validTimestamp_def Let_def)

lemma validTimestamp_fallback:
  "\<not> truthy (sm_timestamp m) \<or> new_Date (Date_parse env) (sm_timestamp m) = None \<Longrightarrow>
   validTimestamp env m = Some (now env)"
  by (auto simp: validTimestamp_def Let_def)

lemma validTimestamp_parsed:
  "truthy (sm_timestamp m) \<Longrightarrow> new_Date (Date_parse env) (sm_timestamp m) = Some t \<Longrightarrow>
   validTimestamp env m = Some t"
  by (simp add: validTimestamp_def Let_def)

lemma ocr_step_keeps:
  "ocr_step svc h = Some (text, h1) \<Longrightarrow>
   ScreenCapture_docs h1 = ScreenCapture_docs h \<and> emitted h1 = emitted h \<and> uploads h1 = uploads h"
  by (cases "(svc, h)" rule: ocr_step.cases) (auto simp: log_warn_def)

lemma ai_step_keeps:
  "ai_step svc h = Some (r, h1) \<Longrightarrow>
   ScreenCapture_docs h1 = ScreenCapture_docs h \<and> emitted h1 = emitted h \<and> uploads h1 = uploads h"
  by (cases "(svc, h)" rule: ai_step.cases) (auto simp: log_warn_def)

text \<open>The analysis step rewrites the stored capture at most in its two analysis fields,
  and emits nothing.\<close>

lemma analyze_keeps:
  assumes "ScreenCapture_docs h = docs @ [cap]"
  shows "\<exists>h3 ai ocr.
           (analyzeViolationScreenshot env h (length docs) cap = Suspended h3 \<or>
            analyzeViolationScreenshot env h (length docs) cap = Returned h3) \<and>
           ScreenCapture_docs h3 = docs @ [cap\<lparr>sc_ai_analysis := ai, sc_ocr_analysis := ocr\<rparr>] \<and>
           emitted h3 = emitted h"
proof -
  have same: "docs @ [cap] =
      docs @ [cap\<lparr>sc_ai_analysis := sc_ai_analysis cap, sc_ocr_analysis := sc_ocr_analysis cap\<rparr>]"
    by simp
  show ?thesis
  proof (cases "ocr_step (ocrAnalysisService env) h")
    case None
    then have "analyzeViolationScreenshot env h (length docs) cap = Suspended h"
      by (simp add: analyzeViolationScreenshot_def)
    with assms same show ?thesis by metis
  next
    case (Some p)
    then obtain ocrText h1 where p: "ocr_step (ocrAnalysisService env) h = Some (ocrText, h1)"
      by (cases p) auto
    note k1 = ocr_step_keeps [OF p]
    show ?thesis
    proof (cases "ai_step (groqAIService env) h1")
      case None
      with p have "analyzeViolationScreenshot env h (length docs) cap = Suspended h1"
        by (simp add: analyzeViolationScreenshot_def)
      moreover have "ScreenCapture_docs h1 = docs @ [cap]" "emitted h1 = emitted h"
        using k1 assms by simp_all
      ultimately show ?thesis using same by metis
    next
      case (Some q)
      then obtain r h2 where q: "ai_step (groqAIService env) h1 = Some (r, h2)"
        by (cases q) auto
      note k2 = ai_step_keeps [OF q]
      have docs2: "ScreenCapture_docs h2 = docs @ [cap]" and em2: "emitted h2 = emitted h"
        using k1 k2 assms by simp_all
      show ?thesis
      proof (cases "analysis_save_result env")
        case None
        define ai where "ai = Some
            \<lparr>aa_confidence = confidence r,
             aa_activityType = (if isViolation r then ''violation'' else ''normal''),
             aa_activityDescription = ai_description r,
             aa_alertReason = violationType r\<rparr>"
        define ocr where "ocr = Some
            \<lparr>oa_text = ocrText, oa_confidence = 4 / 5, oa_extractedAt = now env\<rparr>"
        have "analyzeViolationScreenshot env h (length docs) cap =
                Returned (h2\<lparr>ScreenCapture_docs :=
                   (ScreenCapture_docs h2)[length docs :=
                      cap\<lparr>sc_ai_analysis := ai, sc_ocr_analysis := ocr\<rparr>]\<rparr>)"
          using p q None by (simp add: analyzeViolationScreenshot_def Let_def ai_def ocr_def)
        moreover have "ScreenCapture_docs (h2\<lparr>ScreenCapture_docs :=
                   (ScreenCapture_docs h2)[length docs :=
                      cap\<lparr>sc_ai_analysis := ai, sc_ocr_analysis := ocr\<rparr>]\<rparr>)
                 = docs @ [cap\<lparr>sc_ai_analysis := ai, sc_ocr_analysis := ocr\<rparr>]"
          by (simp add: docs2)
        moreover have "emitted (h2\<lparr>ScreenCapture_docs :=
                   (ScreenCapture_docs h2)[length docs :=
                      cap\<lparr>sc_ai_analysis := ai, sc_ocr_analysis := ocr\<rparr>]\<rparr>) = emitted h"
          by (simp add: em2)
        ultimately show ?thesis by metis
      next
        case (Some err)
        with p q have "analyzeViolationScreenshot env h (length docs) cap =
              Returned (log_error ''Error analyzing violation screenshot'' h2)"
          by (simp add: analyzeViolationScreenshot_def Let_def)
        moreover have
          "ScreenCapture_docs (log_error ''Error analyzing violation screenshot'' h2) = docs @ [cap]"
          "emitted (log_error ''Error analyzing violation screenshot'' h2) = emitted h"
          using docs2 em2 by (simp_all add: log_error_def)
        ultimately show ?thesis using same by metis
      qed
    qed
  qed
qed

text \<open>
  C7, as the code has it. An ingest call stores at most one capture record, and the
  timestamp of that record is always a valid date: the ingestion time when
  \<open>metadata.timestamp\<close> is absent (falsy) or does not parse, and otherwise the date
  that \<open>metadata.timestamp\<close> parses to, taken as the client sent it.
\<close>

theorem capture_timestamp_is_valid:
  "ScreenCapture_docs (handleScreenshotCaptured env h sock d) = ScreenCapture_docs h \<or>
   (\<exists>c m. sd_metadata d = Some m \<and>
      ScreenCapture_docs (handleScreenshotCaptured env h sock d) = ScreenCapture_docs h @ [c] \<and>
      sc_timestamp c \<noteq> None \<and>
      (\<not> truthy (sm_timestamp m) \<or> new_Date (Date_parse env) (sm_timestamp m) = None
         \<longrightarrow> sc_timestamp c = Some (now env)) \<and>
      (truthy (sm_timestamp m) \<and> new_Date (Date_parse env) (sm_timestamp m) \<noteq> None
         \<longrightarrow> sc_timestamp c = new_Date (Date_parse env) (sm_timestamp m)))"
proof -
  let ?h' = "handleScreenshotCaptured env h sock d"
  have ts: "sc_timestamp c = validTimestamp env m \<Longrightarrow>
      sc_timestamp c \<noteq> None \<and>
      (\<not> truthy (sm_timestamp m) \<or> new_Date (Date_parse env) (sm_timestamp m) = None
         \<longrightarrow> sc_timestamp c = Some (now env)) \<and>
      (truthy (sm_timestamp m) \<and> new_Date (Date_parse env) (sm_timestamp m) \<noteq> None
         \<longrightarrow> sc_timestamp c = new_Date (Date_parse env) (sm_timestamp m))" for c m
    using validTimestamp_valid [of env m] validTimestamp_fallback [of m env]
      validTimestamp_parsed [of m env] by auto
  have "ScreenCapture_docs ?h' = ScreenCapture_docs h \<or>
        (\<exists>c m. sd_metadata d = Some m \<and> ScreenCapture_docs ?h' = ScreenCapture_docs h @ [c] \<and>
               sc_timestamp c = validTimestamp env m)"
  proof (cases "\<not> truthy_str (sd_employeeId d) \<or> \<not> truthy_str (sd_sessionId d) \<or>
           \<not> truthy_str (sd_imageData d) \<or> sd_metadata d = None")
    case True
    then have "handleScreenshotCaptured env h sock d =
          screenshot_failed (Error ''Missing required screenshot data'') h sock d"
      by (cases "sd_employeeId d"; cases "sd_sessionId d"; cases "sd_imageData d";
          cases "sd_metadata d") (auto simp: handleScreenshotCaptured_def)
    then show ?thesis by (simp add: screenshot_failed_def emit_def log_error_def)
  next
    case False
    then obtain employee session imageData m where
      v: "sd_employeeId d = Some employee" "sd_sessionId d = Some session"
         "sd_imageData d = Some imageData" "sd_metadata d = Some m"
         "employee \<noteq> []" "session \<noteq> []" "imageData \<noteq> []"
      by (cases "sd_employeeId d"; cases "sd_sessionId d"; cases "sd_imageData d";
          cases "sd_metadata d") auto
    show ?thesis
    proof (cases "upload_outcome env")
      case (Inl err)
      with v show ?thesis
        by (simp add: handleScreenshotCaptured_def Let_def screenshot_failed_def emit_def
            log_error_def)
    next
      case (Inr r)
      show ?thesis
      proof (cases "capture_save_result env")
        case (Some err)
        with v Inr show ?thesis
          by (simp add: handleScreenshotCaptured_def Let_def screenshot_failed_def emit_def
              log_error_def)
      next
        case None
        show ?thesis
        proof (cases "sd_trigger d = Some ''violation''")
          case False
          with v Inr None show ?thesis
            by (simp add: handleScreenshotCaptured_def Let_def screenshot_ack_def emit_def
                new_ScreenCapture_def)
        next
          case True
          define buf where "buf = base64_decode env (strip_data_url imageData)"
          define cap where "cap = new_ScreenCapture env employee session True buf m r"
          define h2 where "h2 =
             h\<lparr>uploads := uploads h @
                  [(UploadViolationScreenshot, buf, employee, new_uploadMetadata True m)],
               ScreenCapture_docs := ScreenCapture_docs h @ [cap]\<rparr>"
          have docs2: "ScreenCapture_docs h2 = ScreenCapture_docs h @ [cap]"
            by (simp add: h2_def)
          have unfold: "?h' =
             (case analyzeViolationScreenshot env h2 (length (ScreenCapture_docs h)) cap of
                Suspended h3 \<Rightarrow> h3
              | Returned h3 \<Rightarrow> screenshot_ack sock (length (ScreenCapture_docs h)) r d h3)"
            using v Inr None True
            by (simp add: handleScreenshotCaptured_def Let_def h2_def cap_def buf_def)
          from analyze_keeps [OF docs2, where env = env]
          obtain h3 ai ocr where
            run: "analyzeViolationScreenshot env h2 (length (ScreenCapture_docs h)) cap = Suspended h3 \<or>
                  analyzeViolationScreenshot env h2 (length (ScreenCapture_docs h)) cap = Returned h3"
            and d3: "ScreenCapture_docs h3 =
                  ScreenCapture_docs h @ [cap\<lparr>sc_ai_analysis := ai, sc_ocr_analysis := ocr\<rparr>]"
            by blast
          from run d3
          have "ScreenCapture_docs ?h' =
                  ScreenCapture_docs h @ [cap\<lparr>sc_ai_analysis := ai, sc_ocr_analysis := ocr\<rparr>]"
            unfolding unfold by (auto simp: screenshot_ack_def emit_def)
          moreover have "sc_timestamp (cap\<lparr>sc_ai_analysis := ai, sc_ocr_analysis := ocr\<rparr>)
                           = validTimestamp env m"
            by (simp add: cap_def new_ScreenCapture_def)
          ultimately show ?thesis using v(4) by blast
        qed
      qed
    qed
  qed
  with ts show ?thesis by blast
qed

text \<open>The timestamp \<open>"not-a-date"\<close> does not parse: the stored record carries the
  ingestion time.\<close>

theorem capture_timestamp_is_valid_witness:
  "\<exists>c. ScreenCapture_docs (handleScreenshotCaptured example_env new_handler ''sock1'' manual_shot)
          = [c] \<and>
        sc_timestamp c = Some (now example_env)"
proof -
  have docs: "length (ScreenCapture_docs
                (handleScreenshotCaptured example_env new_handler ''sock1'' manual_shot)) = 1"
    by (simp add: handleScreenshotCaptured_def manual_shot_def violation_shot_def
        example_env_def new_handler_def Let_def screenshot_ack_def emit_def)
  have m: "sd_metadata manual_shot = Some example_metadata"
    by (simp add: manual_shot_def violation_shot_def)
  have np: "new_Date (Date_parse example_env) (sm_timestamp example_metadata) = None"
    by (simp add: example_metadata_def example_env_def new_Date_def)
  have e: "ScreenCapture_docs new_handler = []"
    by (simp add: new_handler_def)
  from capture_timestamp_is_valid [of example_env new_handler "''sock1''" manual_shot]
    docs m np e
  show ?thesis by auto
qed

text \<open>A client timestamp in the year 2100 is a valid date, and it is stored as sent,
  although the ingestion time is in 2023.\<close>

theorem future_timestamp_is_stored:
  "\<exists>c. ScreenCapture_docs (handleScreenshotCaptured example_env new_handler ''sock1'' future_shot)
          = [c] \<and>
        sc_timestamp c = Some 4102444800000 \<and> now example_env < 4102444800000"
  by (simp add: handleScreenshotCaptured_def future_shot_def manual_shot_def violation_shot_def
      example_metadata_def example_env_def new_handler_def Let_def screenshot_ack_def emit_def
      validTimestamp_def new_Date_def new_ScreenCapture_def)

section \<open>Analysis and acknowledgment\<close>

lemma violation_ingest_unfold:
  assumes v: "sd_employeeId d = Some employee" "sd_sessionId d = Some session"
      "sd_imageData d = Some imageData" "sd_metadata d = Some m"
      "employee \<noteq> []" "session \<noteq> []" "imageData \<noteq> []"
    and viol: "sd_trigger d = Some ''violation''"
    and up: "upload_outcome env = Inr r"
    and saved: "capture_save_result env = None"
  shows "handleScreenshotCaptured env h sock d =
     (case analyzeViolationScreenshot env
             (h\<lparr>uploads := uploads h @
                  [(UploadViolationScreenshot, base64_decode env (strip_data_url imageData),
                    employee, new_uploadMetadata True m)],
                ScreenCapture_docs := ScreenCapture_docs h @
                  [new_ScreenCapture env employee session True
                     (base64_decode env (strip_data_url imageData)) m r]\<rparr>)
             (length (ScreenCapture_docs h))
             (new_ScreenCapture env employee session True
                (base64_decode env (strip_data_url imageData)) m r) of
        Suspended h3 \<Rightarrow> h3
      | Returned h3 \<Rightarrow> screenshot_ack sock (length (ScreenCapture_docs h)) r d h3)"
  using assms by (simp add: handleScreenshotCaptured_def Let_def)

lemma analyze_pending:
  "ocrAnalysisService env = Some Pending \<or> groqAIService env = Some Pending \<Longrightarrow>
   \<exists>h3. analyzeViolationScreenshot env h cid cap = Suspended h3 \<and> emitted h3 = emitted h"
  by (cases "(ocrAnalysisService env, h)" rule: ocr_step.cases)
     (auto simp: analyzeViolationScreenshot_def log_warn_def)

lemma analyze_returns:
  assumes "ocrAnalysisService env \<noteq> Some Pending" and "groqAIService env \<noteq> Some Pending"
  shows "\<exists>h3. analyzeViolationScreenshot env h cid cap = Returned h3 \<and> emitted h3 = emitted h"
proof -
  from assms(1) obtain ocrText h1 where
    p: "ocr_step (ocrAnalysisService env) h = Some (ocrText, h1)"
    by (cases "(ocrAnalysisService env, h)" rule: ocr_step.cases) auto
  from assms(2) obtain r h2 where q: "ai_step (groqAIService env) h1 = Some (r, h2)"
    by (cases "(groqAIService env, h1)" rule: ai_step.cases) auto
  from ocr_step_keeps [OF p] ai_step_keeps [OF q] have "emitted h2 = emitted h" by simp
  with p q show ?thesis
    by (cases "analysis_save_result env")
       (simp_all add: analyzeViolationScreenshot_def Let_def log_error_def)
qed

lemma analyze_default_payload:
  assumes ocr: "ocrAnalysisService env \<noteq> Some Pending"
    and ai: "groqAIService env = None \<or> (\<exists>msg. groqAIService env = Some (Rejects msg))"
    and save: "analysis_save_result env = None"
    and docs: "ScreenCapture_docs h = docs @ [cap]"
  shows "\<exists>h3 c. analyzeViolationScreenshot env h (length docs) cap = Returned h3 \<and>
           ScreenCapture_docs h3 = docs @ [c] \<and>
           sc_ai_analysis c = Some
             \<lparr>aa_confidence = 1 / 2, aa_activityType = ''violation'',
              aa_activityDescription = ''Policy violation detected'',
              aa_alertReason = ''unauthorized_access''\<rparr>"
proof -
  from ocr obtain ocrText h1 where
    p: "ocr_step (ocrAnalysisService env) h = Some (ocrText, h1)"
    by (cases "(ocrAnalysisService env, h)" rule: ocr_step.cases) auto
  from ai obtain h2 where q: "ai_step (groqAIService env) h1 = Some (default_aiAnalysis, h2)"
    by auto
  from ocr_step_keeps [OF p] ai_step_keeps [OF q] docs
  have d2: "ScreenCapture_docs h2 = docs @ [cap]" by simp
  from p q save d2 show ?thesis
    by (simp add: analyzeViolationScreenshot_def Let_def default_aiAnalysis_def)
qed

text \<open>
  C8, as the code has it. For a violation-triggered screenshot whose required fields are
  present, whose upload succeeds and whose record is saved, the handler awaits the
  analysis step before it acknowledges. While the OCR or the AI call stays pending, no
  \<open>screenshot-processed\<close> event is emitted. Once neither call is pending - the
  collaborator may be missing, lack the method, or reject - exactly the acknowledgment is
  emitted, with the id of the saved record and the upload's public id. When the AI
  collaborator is missing or rejects (and the analysed record is saved), the record carries
  the default analysis: confidence 0.5, activity type \<open>violation\<close>.
\<close>

theorem violation_ack_follows_analysis:
  assumes valid: "truthy_str (sd_employeeId d)" "truthy_str (sd_sessionId d)"
      "truthy_str (sd_imageData d)" "sd_metadata d \<noteq> None"
    and viol: "sd_trigger d = Some ''violation''"
    and up: "upload_outcome env = Inr r"
    and saved: "capture_save_result env = None"
  shows "(ocrAnalysisService env = Some Pending \<or> groqAIService env = Some Pending \<longrightarrow>
            emitted (handleScreenshotCaptured env h sock d) = emitted h) \<and>
         (ocrAnalysisService env \<noteq> Some Pending \<and> groqAIService env \<noteq> Some Pending \<longrightarrow>
            emitted (handleScreenshotCaptured env h sock d) = emitted h @
              [(ToSocket sock,
                ScreenshotProcessed (length (ScreenCapture_docs h)) (cloudinary_public_id r)
                  (Some ''violation''))]) \<and>
         (ocrAnalysisService env \<noteq> Some Pending \<and>
          (groqAIService env = None \<or> (\<exists>msg. groqAIService env = Some (Rejects msg))) \<and>
          analysis_save_result env = None \<longrightarrow>
            (\<exists>c. ScreenCapture_docs (handleScreenshotCaptured env h sock d)
                    = ScreenCapture_docs h @ [c] \<and>
                 sc_ai_analysis c = Some
                   \<lparr>aa_confidence = 1 / 2, aa_activityType = ''violation'',
                    aa_activityDescription = ''Policy violation detected'',
                    aa_alertReason = ''unauthorized_access''\<rparr>))"
proof -
  from valid obtain employee session imageData m where
    v: "sd_employeeId d = Some employee" "sd_sessionId d = Some session"
       "sd_imageData d = Some imageData" "sd_metadata d = Some m"
       "employee \<noteq> []" "session \<noteq> []" "imageData \<noteq> []"
    by (cases "sd_employeeId d"; cases "sd_sessionId d"; cases "sd_imageData d";
        cases "sd_metadata d") auto
  define cap where "cap = new_ScreenCapture env employee session True
                (base64_decode env (strip_data_url imageData)) m r"
  define h2 where "h2 = h\<lparr>uploads := uploads h @
                  [(UploadViolationScreenshot, base64_decode env (strip_data_url imageData),
                    employee, new_uploadMetadata True m)],
                ScreenCapture_docs := ScreenCapture_docs h @ [cap]\<rparr>"
  have unfold: "handleScreenshotCaptured env h sock d =
     (case analyzeViolationScreenshot env h2 (length (ScreenCapture_docs h)) cap of
        Suspended h3 \<Rightarrow> h3
      | Returned h3 \<Rightarrow> screenshot_ack sock (length (ScreenCapture_docs h)) r d h3)"
    unfolding h2_def cap_def by (rule violation_ingest_unfold [OF v viol up saved])
  have em2: "emitted h2 = emitted h" and docs2: "ScreenCapture_docs h2 = ScreenCapture_docs h @ [cap]"
    by (simp_all add: h2_def)
  have A: "ocrAnalysisService env = Some Pending \<or> groqAIService env = Some Pending \<longrightarrow>
            emitted (handleScreenshotCaptured env h sock d) = emitted h"
  proof
    assume "ocrAnalysisService env = Some Pending \<or> groqAIService env = Some Pending"
    from analyze_pending [OF this, of h2 "length (ScreenCapture_docs h)" cap]
    show "emitted (handleScreenshotCaptured env h sock d) = emitted h"
      unfolding unfold using em2 by auto
  qed
  have B: "ocrAnalysisService env \<noteq> Some Pending \<and> groqAIService env \<noteq> Some Pending \<longrightarrow>
            emitted (handleScreenshotCaptured env h sock d) = emitted h @
              [(ToSocket sock,
                ScreenshotProcessed (length (ScreenCapture_docs h)) (cloudinary_public_id r)
                  (Some ''violation''))]"
  proof
    assume "ocrAnalysisService env \<noteq> Some Pending \<and> groqAIService env \<noteq> Some Pending"
    then have "\<exists>h3. analyzeViolationScreenshot env h2 (length (ScreenCapture_docs h)) cap
                  = Returned h3 \<and> emitted h3 = emitted h2"
      using analyze_returns by blast
    then show "emitted (handleScreenshotCaptured env h sock d) = emitted h @
              [(ToSocket sock,
                ScreenshotProcessed (length (ScreenCapture_docs h)) (cloudinary_public_id r)
                  (Some ''violation''))]"
      unfolding unfold using em2 viol by (auto simp: screenshot_ack_def emit_def)
  qed
  have C: "ocrAnalysisService env \<noteq> Some Pending \<and>
          (groqAIService env = None \<or> (\<exists>msg. groqAIService env = Some (Rejects msg))) \<and>
          analysis_save_result env = None \<longrightarrow>
            (\<exists>c. ScreenCapture_docs (handleScreenshotCaptured env h sock d)
                    = ScreenCapture_docs h @ [c] \<and>
                 sc_ai_analysis c = Some
                   \<lparr>aa_confidence = 1 / 2, aa_activityType = ''violation'',
                    aa_activityDescription = ''Policy violation detected'',
                    aa_alertReason = ''unauthorized_access''\<rparr>)"
  proof
    assume a: "ocrAnalysisService env \<noteq> Some Pending \<and>
          (groqAIService env = None \<or> (\<exists>msg. groqAIService env = Some (Rejects msg))) \<and>
          analysis_save_result env = None"
    from a have a1: "ocrAnalysisService env \<noteq> Some Pending"
      and a2: "groqAIService env = None \<or> (\<exists>msg. groqAIService env = Some (Rejects msg))"
      and a3: "analysis_save_result env = None"
      by simp_all
    from analyze_default_payload [OF a1 a2 a3 docs2]
    obtain h3 c where
      "analyzeViolationScreenshot env h2 (length (ScreenCapture_docs h)) cap = Returned h3"
      "ScreenCapture_docs h3 = ScreenCapture_docs h @ [c]"
      "sc_ai_analysis c = Some
             \<lparr>aa_confidence = 1 / 2, aa_activityType = ''violation'',
              aa_activityDescription = ''Policy violation detected'',
              aa_alertReason = ''unauthorized_access''\<rparr>"
      by auto
    then show "\<exists>c. ScreenCapture_docs (handleScreenshotCaptured env h sock d)
                    = ScreenCapture_docs h @ [c] \<and>
                 sc_ai_analysis c = Some
                   \<lparr>aa_confidence = 1 / 2, aa_activityType = ''violation'',
                    aa_activityDescription = ''Policy violation detected'',
                    aa_alertReason = ''unauthorized_access''\<rparr>"
      unfolding unfold by (auto simp: screenshot_ack_def emit_def)
  qed
  from A B C show ?thesis by blast
qed

text \<open>No analysis service is installed: the violation screenshot is acknowledged and its
  record carries the default analysis.\<close>

theorem violation_ack_follows_analysis_witness:
  "let h' = handleScreenshotCaptured example_env new_handler ''sock1'' violation_shot
   in emitted h' = [(ToSocket ''sock1'', ScreenshotProcessed 0 (Some ''shot'') (Some ''violation''))] \<and>
      (\<exists>c. ScreenCapture_docs h' = [c] \<and>
           sc_ai_analysis c = Some
             \<lparr>aa_confidence = 1 / 2, aa_activityType = ''violation'',
              aa_activityDescription = ''Policy violation detected'',
              aa_alertReason = ''unauthorized_access''\<rparr>)"
proof -
  have valid: "truthy_str (sd_employeeId violation_shot)" "truthy_str (sd_sessionId violation_shot)"
      "truthy_str (sd_imageData violation_shot)" "sd_metadata violation_shot \<noteq> None"
    and viol: "sd_trigger violation_shot = Some ''violation''"
    by (simp_all add: violation_shot_def)
  have up: "upload_outcome example_env =
      Inr \<lparr>cloudinary_url = Some ''https://res.example/shot.png'',
           cloudinary_public_id = Some ''shot'', cloudinary_version = Some 1,
           format = Some ''png'', file_size = Some 4, width = Some 1280, height = Some 720\<rparr>"
    and saved: "capture_save_result example_env = None"
    and svc: "ocrAnalysisService example_env = None" "groqAIService example_env = None"
      "analysis_save_result example_env = None"
    by (simp_all add: example_env_def)
  from violation_ack_follows_analysis [OF valid viol up saved, of new_handler "''sock1''"] svc
  show ?thesis
    unfolding Let_def by (simp add: new_handler_def)
qed

text \<open>
  The OCR service is installed and its call never settles: the violation screenshot has
  been uploaded and its record saved, but no acknowledgment is ever emitted. The same
  screenshot with no OCR service is acknowledged.
\<close>

theorem pending_analysis_blocks_ack:
  "(let h' = handleScreenshotCaptured (example_env\<lparr>ocrAnalysisService := Some Pending\<rparr>)
               new_handler ''sock1'' violation_shot
    in length (uploads h') = 1 \<and> length (ScreenCapture_docs h') = 1 \<and> emitted h' = []) \<and>
   emitted (handleScreenshotCaptured example_env new_handler ''sock1'' violation_shot)
     = [(ToSocket ''sock1'', ScreenshotProcessed 0 (Some ''shot'') (Some ''violation''))]"
  by (simp add: handleScreenshotCaptured_def violation_shot_def example_metadata_def
      example_env_def new_handler_def Let_def analyzeViolationScreenshot_def screenshot_ack_def
      emit_def default_aiAnalysis_def)

section \<open>Delta skip of the screen capture service\<close>

lemma save_capture_proceeds:
  "fst (save_capture env svc cfg trigger metadata shot hash compressed cloud filePath) \<noteq> Inr None"
  "cs_uploads (fst (snd (save_capture env svc cfg trigger metadata shot hash compressed cloud
     filePath))) = cs_uploads svc"
  by (simp_all add: save_capture_def Let_def split: sum.splits option.splits)

lemma upload_capture_proceeds:
  "fst (upload_capture env svc cfg trigger metadata shot hash) \<noteq> Inr None"
  by (simp add: upload_capture_def Let_def save_capture_proceeds split: sum.splits)

lemma upload_capture_uploads:
  assumes "compress_result env = Inr compressed"
  shows "cs_uploads (fst (snd (upload_capture env svc cfg trigger metadata shot hash))) =
           cs_uploads svc @
             [(compressed, cc_employeeId cfg, or_else (cm_application_name metadata) ''unknown'')]"
  using assms
  by (simp add: upload_capture_def Let_def save_capture_proceeds split: sum.splits)

lemma captureScreen_of_body:
  "fst (captureScreen env svc cfg trigger metadata) = Inr None \<longleftrightarrow>
     fst (captureScreen_body env svc cfg trigger metadata) = Inr None"
  "cs_uploads (fst (snd (captureScreen env svc cfg trigger metadata))) =
     cs_uploads (fst (snd (captureScreen_body env svc cfg trigger metadata)))"
  by (simp_all add: captureScreen_def split: prod.splits sum.splits option.splits)

text \<open>
  C10. Let the screenshot taken for a capture hash to the \<open>lastCaptureHash\<close> of the
  capture configuration. With the trigger \<open>scheduled\<close>, \<open>captureScreen\<close> returns
  \<open>null\<close> and leaves the service and the configuration as they were: no upload, no capture
  record, no alert. With any other trigger it does not return \<open>null\<close>: it goes on to
  compress the image and, when compression succeeds, calls the upload with the compressed
  image.
\<close>

theorem unchanged_scheduled_capture_is_skipped:
  assumes shot: "take_screenshot env = Inr buffer"
    and same: "cc_lastCaptureHash cfg = Some (md5_hex env buffer)"
  shows "captureScreen env svc cfg ''scheduled'' metadata = (Inr None, svc, cfg) \<and>
         (trigger \<noteq> ''scheduled'' \<longrightarrow>
            fst (captureScreen env svc cfg trigger metadata) \<noteq> Inr None \<and>
            (\<forall>compressed. compress_result env = Inr compressed \<longrightarrow>
               cs_uploads (fst (snd (captureScreen env svc cfg trigger metadata))) =
                 cs_uploads svc @
                   [(compressed, cc_employeeId cfg,
                     or_else (cm_application_name metadata) ''unknown'')]))"
proof -
  have skip: "captureScreen env svc cfg ''scheduled'' metadata = (Inr None, svc, cfg)"
    using shot same by (simp add: captureScreen_def captureScreen_body_def Let_def)
  have go: "captureScreen_body env svc cfg trigger metadata =
              upload_capture env svc cfg trigger metadata buffer (md5_hex env buffer)"
    if "trigger \<noteq> ''scheduled''"
    using shot that by (simp add: captureScreen_body_def Let_def)
  show ?thesis
    using skip go captureScreen_of_body [of env svc cfg trigger metadata]
      upload_capture_proceeds [of env svc cfg trigger metadata buffer "md5_hex env buffer"]
      upload_capture_uploads [of env _ svc cfg trigger metadata buffer "md5_hex env buffer"]
    by auto
qed

text \<open>The screen has not changed since the last capture: a scheduled capture is skipped,
  a manual one is uploaded and stored.\<close>

theorem unchanged_scheduled_capture_is_skipped_witness:
  "captureScreen example_capture_env example_service unchanged_config ''scheduled'' no_metadata
     = (Inr None, example_service, unchanged_config) \<and>
   (let manual = captureScreen example_capture_env example_service unchanged_config ''manual''
                   no_metadata
    in fst manual \<noteq> Inr None \<and>
       cs_uploads (fst (snd manual)) = [([255, 216, 255], ''emp1'', ''unknown'')] \<and>
       map svc_capture_trigger (cs_ScreenCapture_docs (fst (snd manual))) = [''manual''])"
proof -
  have shot: "take_screenshot example_capture_env = Inr [137, 80, 78, 71]"
    by (simp add: take_screenshot_def example_capture_env_def)
  have same: "cc_lastCaptureHash unchanged_config
                = Some (md5_hex example_capture_env [137, 80, 78, 71])"
    by (simp add: unchanged_config_def example_capture_env_def)
  have comp: "compress_result example_capture_env = Inr [255, 216, 255]"
    by (simp add: example_capture_env_def)
  have docs: "map svc_capture_trigger (cs_ScreenCapture_docs (fst (snd
      (captureScreen example_capture_env example_service unchanged_config ''manual''
         no_metadata)))) = [''manual'']"
    by (simp add: captureScreen_def captureScreen_body_def upload_capture_def save_capture_def
        take_screenshot_def example_capture_env_def example_service_def unchanged_config_def
        no_metadata_def Let_def)
  have ids: "cc_employeeId unchanged_config = ''emp1''"
    "or_else (cm_application_name no_metadata) ''unknown'' = ''unknown''"
    "cs_uploads example_service = []"
    by (simp_all add: unchanged_config_def no_metadata_def or_else_def example_service_def)
  from unchanged_scheduled_capture_is_skipped [OF shot same, of example_service no_metadata
      "''manual''"] comp docs ids
  show ?thesis
    unfolding Let_def by simp
qed

end
